theory Spec2Isabelle
  imports Complex_Main "HOL-Library.Sublist"
begin

section \<open>JavaScript strings and values used by the application\<close>

text \<open>
  Strings are byte strings (\<open>char list\<close>); the source's strings are taken to be ASCII, so
  that \<open>toLowerCase\<close> changes the letters \<open>A\<close> to \<open>Z\<close> only. A value that may be
  \<open>null\<close> or \<open>undefined\<close> is an \<open>option\<close>. A string is falsy exactly when it is
  empty, a nullable string also when it is absent.
\<close>

definition lower_char :: "char \<Rightarrow> char" where
  "lower_char c =
     (if 65 \<le> (of_char c :: nat) \<and> (of_char c :: nat) \<le> 90
      then char_of ((of_char c :: nat) + 32) else c)"

definition toLowerCase :: "string \<Rightarrow> string" where
  "toLowerCase s = map lower_char s"

definition startsWith :: "string \<Rightarrow> string \<Rightarrow> bool" where
  "startsWith s p = (take (length p) s = p)"

text \<open>\<open>str.includes(sub)\<close>: \<open>sub\<close> occurs in \<open>str\<close> as a contiguous run.\<close>

fun str_includes :: "string \<Rightarrow> string \<Rightarrow> bool" where
  "str_includes [] sub = (sub = [])"
| "str_includes (c # cs) sub = (startsWith (c # cs) sub \<or> str_includes cs sub)"

text \<open>
  \<open>str.trim()\<close> strips white space and line terminators from both ends. Of the
  characters below 256 these are tab to carriage return (9 to 13), the space (32) and
  the no-break space (160); the others that JavaScript strips (U+FEFF, U+2028, U+2029
  and the Unicode space separators) lie above 255 and do not occur in a byte string.
\<close>

definition is_ws :: "char \<Rightarrow> bool" where
  "is_ws c =
     ((of_char c :: nat) = 32 \<or> (of_char c :: nat) = 160
      \<or> (9 \<le> (of_char c :: nat) \<and> (of_char c :: nat) \<le> 13))"

definition trim :: "string \<Rightarrow> string" where
  "trim s = rev (dropWhile is_ws (rev (dropWhile is_ws s)))"

text \<open>\<open>str.split(c)\<close> for a one-character separator; the result is never empty.\<close>

fun split_js :: "char \<Rightarrow> string \<Rightarrow> string list" where
  "split_js c [] = [[]]"
| "split_js c (x # xs) =
     (if x = c then [] # split_js c xs
      else (case split_js c xs of [] \<Rightarrow> [[x]] | h # t \<Rightarrow> (x # h) # t))"

text \<open>\<open>xs[i]\<close>: \<open>undefined\<close> out of range.\<close>

fun at_index :: "'a list \<Rightarrow> nat \<Rightarrow> 'a option" where
  "at_index [] i = None"
| "at_index (x # xs) 0 = Some x"
| "at_index (x # xs) (Suc i) = at_index xs i"

fun falsy :: "string option \<Rightarrow> bool" where
  "falsy None = True"
| "falsy (Some s) = (s = [])"

text \<open>\<open>xs.join(sep)\<close>.\<close>

fun join_js :: "string \<Rightarrow> string list \<Rightarrow> string" where
  "join_js sep [] = []"
| "join_js sep [x] = x"
| "join_js sep (x # y # ys) = x @ sep @ join_js sep (y # ys)"

text \<open>Decimal rendering of an integer, as a template literal prints a whole number.\<close>

fun digits :: "nat \<Rightarrow> string" where
  "digits n = (if n < 10 then [char_of (48 + n)] else digits (n div 10) @ [char_of (48 + n mod 10)])"

definition show_int :: "int \<Rightarrow> string" where
  "show_int i = (if i < 0 then CHR ''-'' # digits (nat (- i)) else digits (nat i))"

section \<open>The auth-error test\<close>

text \<open>
  A thrown value, by what \<open>isAuthError\<close> reads of it: an object has a \<open>toString()\<close>
  and a \<open>JSON.stringify\<close> rendering, a primitive (string, number, boolean) only a
  \<open>toString()\<close>, and on \<open>null\<close> or \<open>undefined\<close> the call \<open>err.toString()\<close> itself
  raises a TypeError (\<open>None\<close> below).
\<close>

datatype thrown = ErrObject string string | ErrPrimitive string | ErrNullish

fun stringified :: "thrown \<Rightarrow> string option" where
  "stringified (ErrObject ts js) = Some (toLowerCase (ts @ js))"
| "stringified (ErrPrimitive ts) = Some (toLowerCase (ts @ []))"
| "stringified ErrNullish = None"

definition auth_marker :: "string \<Rightarrow> bool" where
  "auth_marker str =
     (str_includes str ''403'' \<or> str_includes str ''permission_denied''
      \<or> str_includes str ''permission denied'' \<or> str_includes str ''not found'')"

definition isAuthError :: "thrown \<Rightarrow> bool option" where
  "isAuthError err = map_option auth_marker (stringified err)"

section \<open>Application state\<close>

datatype view = Editor | Advanced | Gallery | Brush | Inspector | Filters

datatype feedback_t = Liked | Disliked

record HistoryItem =
  hid :: int
  original :: string
  generated :: string
  hprompt :: string
  timestamp :: string
  hmodel :: string

record LearningProfile =
  lightingEmphasis :: int
  blendingStrictness :: int
  corrections :: "string list"

record app_state =
  hasApiKey :: bool
  isInitialLoad :: bool
  originalImage :: "string option"
  generatedImage :: "string option"
  prompt :: string
  loading :: bool
  enhancing :: bool
  error :: string
  blending :: int
  isCompareMode :: bool
  sceneRefImage :: "string option"
  analyzingSceneRef :: bool
  selectedModel :: string
  activeView :: view
  history :: "HistoryItem list"
  feedback :: "feedback_t option"
  showFeedbackOptions :: bool
  learningProfile :: LearningProfile

definition initial_state :: app_state where
  "initial_state =
     \<lparr> hasApiKey = False, isInitialLoad = True, originalImage = None, generatedImage = None,
       prompt = [], loading = False, enhancing = False, error = [], blending = 50,
       isCompareMode = False, sceneRefImage = None, analyzingSceneRef = False,
       selectedModel = ''nano-banana-1'', activeView = Editor, history = [],
       feedback = None, showFeedbackOptions = False,
       learningProfile = \<lparr> lightingEmphasis = 0, blendingStrictness = 0, corrections = [] \<rparr> \<rparr>"

subsection \<open>handleReset\<close>

definition handleReset :: "app_state \<Rightarrow> app_state" where
  "handleReset s =
     s\<lparr> originalImage := None, generatedImage := None, sceneRefImage := None,
        prompt := [], error := [], feedback := None, showFeedbackOptions := False,
        isCompareMode := False, activeView := Editor \<rparr>"

subsection \<open>handleDislike\<close>

definition correction_lighting :: string where
  "correction_lighting =
     ''User complained about bad lighting integration previously. ''
     @ ''FORCE Color Grading and Light Matching.''"

definition correction_cutout :: string where
  "correction_cutout =
     ''User complained about artificial edges. IMPROVE Edge Blending and Alpha Matting.''"

definition correction_fake :: string where
  "correction_fake =
     ''User complained result looked fake. INCREASE Photorealism and Texture details.''"

text \<open>
  The first half of \<open>handleDislike\<close>: the correction chosen for the reason and the
  profile with its counter raised.
\<close>

definition dislike_choice :: "string \<Rightarrow> LearningProfile \<Rightarrow> string \<times> LearningProfile" where
  "dislike_choice reason p =
     (if reason = ''lighting''
        then (correction_lighting, p\<lparr> lightingEmphasis := lightingEmphasis p + 1 \<rparr>)
      else if reason = ''cutout''
        then (correction_cutout, p\<lparr> blendingStrictness := blendingStrictness p + 1 \<rparr>)
      else if reason = ''fake'' then (correction_fake, p)
      else ([], p))"

text \<open>
  The second half: \<open>push\<close> when the correction is non-empty and not yet in the list
  (\<open>includes\<close> on an array is membership).
\<close>

definition push_correction :: "string \<Rightarrow> LearningProfile \<Rightarrow> LearningProfile" where
  "push_correction newCorrection p =
     (if newCorrection = [] then p
      else if newCorrection \<in> set (corrections p) then p
      else p\<lparr> corrections := corrections p @ [newCorrection] \<rparr>)"

definition handleDislike :: "string \<Rightarrow> app_state \<Rightarrow> app_state" where
  "handleDislike reason s =
     (let s1 = s\<lparr> feedback := Some Disliked, showFeedbackOptions := False \<rparr>;
          (newCorrection, newProfile) = dislike_choice reason (learningProfile s1)
      in s1\<lparr> learningProfile := push_correction newCorrection newProfile \<rparr>)"

section \<open>The external model: requests and responses\<close>

definition nl :: string where "nl = [CHR 0x0A]"
definition dq :: string where "dq = [CHR 0x22]"
definition sq :: string where "sq = [CHR 0x27]"

text \<open>
  The response of \<open>generateContent\<close>, as far as the application reads it. Every level
  of \<open>response.candidates?.[0]?.content?.parts\<close> may be absent, and so may the
  \<open>data\<close> of an inline part.
\<close>

record Blob =
  mimeType :: "string option"
  data :: "string option"

record Part =
  ptext :: "string option"
  inlineData :: "Blob option"

record Content =
  parts :: "Part list option"

record Candidate =
  content :: "Content option"

record GenerateContentResponse =
  candidates :: "Candidate list option"
  rtext :: "string option"

datatype req_part = TextPart string | InlinePart Blob

datatype req_contents = ContentsText string | ContentsParts "req_part list"

record GenConfig =
  systemInstruction :: "string option"
  responseMimeType :: "string option"

record request =
  model :: string
  contents :: req_contents
  config :: "GenConfig option"

text \<open>
  What the \<open>try\<close> block gets from the external model: the awaited call resolves with a
  response, or a value is thrown (by the call, or by the constructor of the client just
  before it).
\<close>

datatype outcome = Resolved GenerateContentResponse | Rejected thrown

type_synonym api = "request \<Rightarrow> outcome"

text \<open>\<open>Date.now()\<close> and \<open>new Date().toLocaleTimeString()\<close> at the moment of use.\<close>

record clock =
  now :: int
  timeString :: string

record model_config =
  mid :: string
  apiModel :: string
  mname :: string
  mlabel :: string
  mdescription :: string
  mdisabled :: bool

definition MODELS :: "model_config list" where
  "MODELS =
     [ \<lparr> mid = ''nano-banana-1'', apiModel = ''gemini-2.5-flash-image'',
         mname = ''Nano Banana 1'', mlabel = ''Standard'',
         mdescription = ''Fast, efficient, creative drafts.'', mdisabled = False \<rparr>,
       \<lparr> mid = ''nano-banana-2'', apiModel = ''gemini-3-pro-image-preview'',
         mname = ''Nano Banana 2'', mlabel = ''Pro'',
         mdescription = ''Ultra-realistic details & reasoning.'', mdisabled = True \<rparr> ]"

text \<open>\<open>(MODELS.find(m => m.id === selected) || MODELS[0]).apiModel\<close>.\<close>

definition modelName :: "string \<Rightarrow> string" where
  "modelName selected =
     apiModel (case List.find (\<lambda>m. mid m = selected) MODELS of
                 Some m \<Rightarrow> m | None \<Rightarrow> hd MODELS)"

text \<open>\<open>img.split(',')[1]\<close> and \<open>img.split(';')[0].split(':')[1]\<close>.\<close>

definition image_data :: "string \<Rightarrow> string option" where
  "image_data img = at_index (split_js CHR '','' img) 1"

definition image_mime :: "string \<Rightarrow> string option" where
  "image_mime img =
     (case split_js CHR '';'' img of [] \<Rightarrow> None | h # t \<Rightarrow> at_index (split_js CHR '':'' h) 1)"

definition response_parts :: "GenerateContentResponse \<Rightarrow> Part list option" where
  "response_parts r =
     (case candidates r of None \<Rightarrow> None
      | Some cs \<Rightarrow>
          (case at_index cs 0 of None \<Rightarrow> None
           | Some c \<Rightarrow> (case content c of None \<Rightarrow> None | Some ct \<Rightarrow> parts ct)))"

text \<open>
  The loop over the parts: it stops at the first part that has \<open>inlineData\<close> and takes
  that part's \<open>data\<close>, present or not.
\<close>

fun first_inline :: "Part list \<Rightarrow> string option" where
  "first_inline [] = None"
| "first_inline (p # ps) =
     (case inlineData p of Some b \<Rightarrow> data b | None \<Rightarrow> first_inline ps)"

definition generatedBase64 :: "GenerateContentResponse \<Rightarrow> string option" where
  "generatedBase64 r = (case response_parts r of None \<Rightarrow> None | Some ps \<Rightarrow> first_inline ps)"

definition data_url_png :: "string \<Rightarrow> string" where
  "data_url_png b = ''data:image/png;base64,'' @ b"

text \<open>\<open>new Error("No image generated.")\<close>, by its \<open>toString()\<close> and its JSON rendering.\<close>

definition no_image_error :: thrown where
  "no_image_error = ErrObject ''Error: No image generated.'' ''{}''"

text \<open>
  The \<open>catch\<close> and \<open>finally\<close> blocks shared in shape by the three generation
  operations, each with its own message. When \<open>isAuthError\<close> itself raises, the
  \<open>finally\<close> block still runs.
\<close>

definition catch_generation :: "string \<Rightarrow> thrown \<Rightarrow> app_state \<Rightarrow> app_state" where
  "catch_generation msg err s =
     (case isAuthError err of
        None \<Rightarrow> s\<lparr> loading := False \<rparr>
      | Some True \<Rightarrow> s\<lparr> hasApiKey := False, loading := False \<rparr>
      | Some False \<Rightarrow> s\<lparr> error := msg, loading := False \<rparr>)"

subsection \<open>generateNewBackground\<close>

definition adaptiveInstructions :: "LearningProfile \<Rightarrow> string" where
  "adaptiveInstructions p =
     (if length (corrections p) > 0
      then ''ADAPTIVE LEARNING: '' @ join_js ''. '' (corrections p) else [])"

definition blendingInstruction :: "int \<Rightarrow> string" where
  "blendingInstruction b =
     (if b < 30 then
     ''Keep original subject lighting and colors strictly. Minimal blending ''
     @ ''with background. Cutout aesthetic.''
      else if b > 70 then
     ''Aggressive blending. Heavily relight and color-grade the subject to ''
     @ ''fully immerse them in the new atmosphere. Modify subject lighting ''
     @ ''significantly.''
      else
     ''Balanced blending. Relight subject naturally to match the environment.'')"

definition background_fullPrompt :: "app_state \<Rightarrow> string" where
  "background_fullPrompt c =
     nl @ ''        TASK: Professional Background Replacement.'' @ nl
     @ ''        STYLE: High-end commercial photography, clean, sharp.'' @ nl
     @ ''        INSTRUCTION: Keep the subject structure. Replace background ''
     @ ''with: '' @ dq
     @ prompt c @
     dq @ ''.'' @ nl @ ''        BLENDING: ''
     @ blendingInstruction (blending c) @ '' (Strength: '' @ show_int (blending c) @
     ''/100)'' @ nl @ ''        TECHNICAL: Seamless compositing.'' @ nl @ ''        ''
     @ adaptiveInstructions (learningProfile c) @ nl @ ''      ''"

definition reference_suffix :: string where
  "reference_suffix =
     '' Use the second image provided as a strict visual reference for the ''
     @ ''background style, lighting, and composition.''"

text \<open>The request is built from the values of the render in which the call was made.\<close>

definition background_request :: "string \<Rightarrow> app_state \<Rightarrow> request" where
  "background_request img c =
     (let base64Data = image_data img;
          mimeType' = image_mime img;
          contentsParts =
            (case sceneRefImage c of
               None \<Rightarrow>
                 [TextPart (background_fullPrompt c),
                  InlinePart \<lparr> mimeType = mimeType', data = base64Data \<rparr>]
             | Some ref \<Rightarrow>
                 if ref = [] then
                   [TextPart (background_fullPrompt c),
                    InlinePart \<lparr> mimeType = mimeType', data = base64Data \<rparr>]
                 else
                   [TextPart (background_fullPrompt c @ reference_suffix),
                    InlinePart \<lparr> mimeType = mimeType', data = base64Data \<rparr>,
                    InlinePart \<lparr> mimeType = image_mime ref, data = image_data ref \<rparr>])
      in \<lparr> model = modelName (selectedModel c), contents = ContentsParts contentsParts,
           config = None \<rparr>)"

definition background_message :: string where
  "background_message = ''Error generating image. Please try again.''"

text \<open>The statements before the \<open>try\<close>.\<close>

definition generateNewBackground_begin :: "app_state \<Rightarrow> app_state" where
  "generateNewBackground_begin s =
     s\<lparr> loading := True, error := [], feedback := None, showFeedbackOptions := False \<rparr>"

text \<open>
  What happens once the awaited call has settled: \<open>img\<close> and \<open>c\<close> are the image and the
  state of the render in which the call was made, \<open>s\<close> is the state at that later moment
  (the history is updated from its latest value).
\<close>

definition generateNewBackground_complete ::
    "outcome \<Rightarrow> clock \<Rightarrow> string \<Rightarrow> app_state \<Rightarrow> app_state \<Rightarrow> app_state" where
  "generateNewBackground_complete out clk img c s =
     (case out of
        Rejected err \<Rightarrow> catch_generation background_message err s
      | Resolved response \<Rightarrow>
          (case generatedBase64 response of
             None \<Rightarrow> catch_generation background_message no_image_error s
           | Some b \<Rightarrow>
               if b = [] then catch_generation background_message no_image_error s
               else
                 s\<lparr> generatedImage := Some (data_url_png b),
                    history :=
                      \<lparr> hid = now clk, original = img, generated = data_url_png b,
                        hprompt = prompt c, timestamp = timeString clk,
                        hmodel = selectedModel c \<rparr> # history s,
                    loading := False \<rparr>))"

text \<open>
  The states that one call of the operation puts the application in, in order: none when
  the guard returns, else the state in which the page waits for the call and the state
  after the call has settled.
\<close>

definition generateNewBackground_states :: "api \<Rightarrow> clock \<Rightarrow> app_state \<Rightarrow> app_state list" where
  "generateNewBackground_states call clk s =
     (case originalImage s of
        None \<Rightarrow> []
      | Some img \<Rightarrow>
          if img = [] \<or> trim (prompt s) = [] then []
          else
            (let waiting = generateNewBackground_begin s
             in [waiting,
                 generateNewBackground_complete (call (background_request img s)) clk img s
                   waiting]))"

text \<open>The state after the call: the last of these, or the state as it was.\<close>

definition generateNewBackground :: "api \<Rightarrow> clock \<Rightarrow> app_state \<Rightarrow> app_state" where
  "generateNewBackground call clk s = last (s # generateNewBackground_states call clk s)"

subsection \<open>applyFilter\<close>

definition filter_fullPrompt :: "string \<Rightarrow> string" where
  "filter_fullPrompt filterPrompt =
     nl @ ''            TASK: Apply a visual style filter to the image.'' @ nl
     @ ''            STYLE: '' @ dq
     @ filterPrompt @
     dq @ nl @ ''            CONSTRAINT: Keep the original composition, subject, and ''
     @ ''geometry EXACTLY the same. Only change lighting, colors, and texture ''
     @ ''to match the requested style.'' @ nl
     @ ''            High quality, detailed, photorealistic (unless style ''
     @ ''implies otherwise).'' @ nl @ ''          ''"

definition filter_request :: "string \<Rightarrow> string \<Rightarrow> app_state \<Rightarrow> request" where
  "filter_request filterPrompt img c =
     \<lparr> model = modelName (selectedModel c),
       contents = ContentsParts
         [TextPart (filter_fullPrompt filterPrompt),
          InlinePart \<lparr> mimeType = image_mime img, data = image_data img \<rparr>],
       config = None \<rparr>"

definition filter_message :: string where
  "filter_message = ''Failed to apply filter.''"

definition applyFilter_begin :: "app_state \<Rightarrow> app_state" where
  "applyFilter_begin s = s\<lparr> loading := True, error := [] \<rparr>"

definition applyFilter_complete ::
    "string \<Rightarrow> outcome \<Rightarrow> clock \<Rightarrow> string \<Rightarrow> app_state \<Rightarrow> app_state \<Rightarrow> app_state" where
  "applyFilter_complete filterPrompt out clk img c s =
     (case out of
        Rejected err \<Rightarrow> catch_generation filter_message err s
      | Resolved response \<Rightarrow>
          (case generatedBase64 response of
             None \<Rightarrow> catch_generation filter_message no_image_error s
           | Some b \<Rightarrow>
               if b = [] then catch_generation filter_message no_image_error s
               else
                 s\<lparr> generatedImage := Some (data_url_png b),
                    history :=
                      \<lparr> hid = now clk, original = img, generated = data_url_png b,
                        hprompt = ''Filter: '' @ filterPrompt, timestamp = timeString clk,
                        hmodel = selectedModel c \<rparr> # history s,
                    activeView := Editor,
                    loading := False \<rparr>))"

definition applyFilter_states ::
    "string \<Rightarrow> api \<Rightarrow> clock \<Rightarrow> app_state \<Rightarrow> app_state list" where
  "applyFilter_states filterPrompt call clk s =
     (case originalImage s of
        None \<Rightarrow> []
      | Some img \<Rightarrow>
          if img = [] then []
          else
            (let waiting = applyFilter_begin s
             in [waiting,
                 applyFilter_complete filterPrompt (call (filter_request filterPrompt img s))
                   clk img s waiting]))"

definition applyFilter :: "string \<Rightarrow> api \<Rightarrow> clock \<Rightarrow> app_state \<Rightarrow> app_state" where
  "applyFilter filterPrompt call clk s =
     last (s # applyFilter_states filterPrompt call clk s)"

subsection \<open>generateWithMask\<close>

definition mask_fullPrompt :: "string \<Rightarrow> string" where
  "mask_fullPrompt maskPrompt =
     nl @ ''            Perform a localized edit on the image using the provided ''
     @ ''mask.'' @ nl @ ''            Instruction: '' @ dq
     @ maskPrompt @
     dq @ ''.'' @ nl
     @ ''            The second image provided is a mask where WHITE pixels ''
     @ ''indicate the area to edit.'' @ nl
     @ ''            Keep all areas outside the mask strictly unchanged.'' @ nl
     @ ''            High quality, photorealistic, seamless blending.'' @ nl
     @ ''        ''"

definition mask_request :: "string \<Rightarrow> string \<Rightarrow> string \<Rightarrow> app_state \<Rightarrow> request" where
  "mask_request maskBase64 maskPrompt img c =
     \<lparr> model = modelName (selectedModel c),
       contents = ContentsParts
         [TextPart (mask_fullPrompt maskPrompt),
          InlinePart \<lparr> mimeType = image_mime img, data = image_data img \<rparr>,
          InlinePart \<lparr> mimeType = Some ''image/png'', data = image_data maskBase64 \<rparr>],
       config = None \<rparr>"

definition mask_message :: string where
  "mask_message = ''Error generating edit. Please try again.''"

definition generateWithMask_begin :: "app_state \<Rightarrow> app_state" where
  "generateWithMask_begin s = s\<lparr> loading := True, error := [] \<rparr>"

definition generateWithMask_complete ::
    "string \<Rightarrow> outcome \<Rightarrow> clock \<Rightarrow> string \<Rightarrow> app_state \<Rightarrow> app_state \<Rightarrow> app_state" where
  "generateWithMask_complete maskPrompt out clk img c s =
     (case out of
        Rejected err \<Rightarrow> catch_generation mask_message err s
      | Resolved response \<Rightarrow>
          (case generatedBase64 response of
             None \<Rightarrow> catch_generation mask_message no_image_error s
           | Some b \<Rightarrow>
               if b = [] then catch_generation mask_message no_image_error s
               else
                 s\<lparr> generatedImage := Some (data_url_png b),
                    history :=
                      \<lparr> hid = now clk, original = img, generated = data_url_png b,
                        hprompt = maskPrompt, timestamp = timeString clk,
                        hmodel = selectedModel c \<rparr> # history s,
                    activeView := Editor,
                    loading := False \<rparr>))"

definition generateWithMask_states ::
    "string \<Rightarrow> string \<Rightarrow> api \<Rightarrow> clock \<Rightarrow> app_state \<Rightarrow> app_state list" where
  "generateWithMask_states maskBase64 maskPrompt call clk s =
     (case originalImage s of
        None \<Rightarrow> []
      | Some img \<Rightarrow>
          if img = [] then []
          else
            (let waiting = generateWithMask_begin s
             in [waiting,
                 generateWithMask_complete maskPrompt
                   (call (mask_request maskBase64 maskPrompt img s)) clk img s waiting]))"

definition generateWithMask ::
    "string \<Rightarrow> string \<Rightarrow> api \<Rightarrow> clock \<Rightarrow> app_state \<Rightarrow> app_state" where
  "generateWithMask maskBase64 maskPrompt call clk s =
     last (s # generateWithMask_states maskBase64 maskPrompt call clk s)"

section \<open>The other handlers of the application\<close>

subsection \<open>handleFile\<close>

text \<open>
  An uploaded file, by its MIME type and the base64 text of its bytes.
  \<open>FileReader.readAsDataURL\<close> is taken to complete: its load event delivers the data
  URL of the file.
\<close>

record File =
  ftype :: string
  fbase64 :: string

definition readAsDataURL :: "File \<Rightarrow> string" where
  "readAsDataURL f =
     ''data:'' @ (if ftype f = [] then ''application/octet-stream'' else ftype f)
     @ '';base64,'' @ fbase64 f"

definition handleFile :: "File \<Rightarrow> app_state \<Rightarrow> app_state" where
  "handleFile f s =
     (if \<not> startsWith (ftype f) ''image/'' then s\<lparr> error := ''Unsupported file format.'' \<rparr>
      else
        (let result = Some (readAsDataURL f)
         in case result of
              None \<Rightarrow> s
            | Some r \<Rightarrow>
                if r = [] then s
                else s\<lparr> originalImage := Some r, generatedImage := None, feedback := None,
                        showFeedbackOptions := False, error := [], activeView := Editor \<rparr>))"

subsection \<open>handleSceneRefUpload and analyzeSceneRef\<close>

definition sceneRef_request :: "string \<Rightarrow> request" where
  "sceneRef_request base64 =
     \<lparr> model = ''gemini-2.5-flash'',
       contents = ContentsParts
         [TextPart
            (''Analyze the uploaded image. Describe the environment, lighting, mood, ''
             @ ''and scenery in high detail. Output a single, high-quality prompt that ''
             @ ''can be used to recreate this background.''),
          InlinePart \<lparr> mimeType = image_mime base64, data = image_data base64 \<rparr>],
       config = Some
         \<lparr> systemInstruction = Some
             (''You are a professional visual prompt engineer. Output ONLY the prompt ''
              @ ''string. No '' @ sq @ ''Here is a prompt'' @ sq
              @ '', no markdown formatting.''),
           responseMimeType = None \<rparr> \<rparr>"

definition analyzeSceneRef :: "string \<Rightarrow> api \<Rightarrow> app_state \<Rightarrow> app_state" where
  "analyzeSceneRef base64 call s =
     (let s1 = s\<lparr> analyzingSceneRef := True \<rparr>;
          s2 =
            (case call (sceneRef_request base64) of
               Resolved response \<Rightarrow>
                 (case rtext response of
                    None \<Rightarrow> s1
                  | Some t \<Rightarrow> if t = [] then s1 else s1\<lparr> prompt := trim t \<rparr>)
             | Rejected e \<Rightarrow>
                 (case isAuthError e of
                    None \<Rightarrow> s1
                  | Some True \<Rightarrow> s1\<lparr> hasApiKey := False \<rparr>
                  | Some False \<Rightarrow> s1))
      in s2\<lparr> analyzingSceneRef := False \<rparr>)"

definition handleSceneRefUpload :: "File \<Rightarrow> api \<Rightarrow> app_state \<Rightarrow> app_state" where
  "handleSceneRefUpload f call s =
     (if \<not> startsWith (ftype f) ''image/'' then s
      else
        (let result = Some (readAsDataURL f)
         in case result of
              None \<Rightarrow> s
            | Some base64 \<Rightarrow>
                if base64 = [] then s
                else analyzeSceneRef base64 call (s\<lparr> sceneRefImage := Some base64 \<rparr>)))"

subsection \<open>enhancePrompt\<close>

definition enhance_request :: "string \<Rightarrow> request" where
  "enhance_request p =
     \<lparr> model = ''gemini-2.5-flash'',
       contents = ContentsText (''User idea: '' @ dq @ p @ dq @ ''. Make it high-end.''),
       config = Some
         \<lparr> systemInstruction = Some
             (''You are a minimalist design expert. Rewrite the user'' @ sq
              @ ''s description into a clean, photorealistic image generation prompt. ''
              @ ''Focus on lighting quality and composition. Output ONLY the raw prompt ''
              @ ''string in English.''),
           responseMimeType = None \<rparr> \<rparr>"

definition enhancePrompt :: "api \<Rightarrow> app_state \<Rightarrow> app_state" where
  "enhancePrompt call s =
     (if trim (prompt s) = [] then s
      else
        (let s1 = s\<lparr> enhancing := True, error := [] \<rparr>;
             s2 =
               (case call (enhance_request (prompt s)) of
                  Resolved response \<Rightarrow>
                    (case rtext response of
                       None \<Rightarrow> s1
                     | Some t \<Rightarrow> if t = [] then s1 else s1\<lparr> prompt := trim t \<rparr>)
                | Rejected err \<Rightarrow>
                    (case isAuthError err of
                       None \<Rightarrow> s1
                     | Some True \<Rightarrow> s1\<lparr> hasApiKey := False \<rparr>
                     | Some False \<Rightarrow> s1\<lparr> error := ''Failed to enhance prompt.'' \<rparr>))
         in s2\<lparr> enhancing := False \<rparr>))"

subsection \<open>loadFromHistory and the key gate\<close>

definition loadFromHistory :: "HistoryItem \<Rightarrow> app_state \<Rightarrow> app_state" where
  "loadFromHistory item s =
     s\<lparr> originalImage := Some (original item), generatedImage := Some (generated item),
        prompt := hprompt item, activeView := Editor \<rparr>"

text \<open>The callback \<open>onAuthError\<close> that the application hands to its child views.\<close>

definition onAuthError :: "app_state \<Rightarrow> app_state" where
  "onAuthError s = s\<lparr> hasApiKey := False \<rparr>"

section \<open>The child views that call the external model\<close>

subsection \<open>FilterStudio\<close>

text \<open>
  The filter studio receives \<open>image\<close>, \<open>onBack\<close>, \<open>onApply\<close>, \<open>loading\<close> and
  \<open>error\<close> from the application, and no \<open>onAuthError\<close>. Its two helper calls act on
  its own state; the state of the application is carried along to show what they leave
  of it.
\<close>

record filter_studio =
  filterPrompt :: string
  fs_enhancing :: bool
  refImage :: "string option"
  analyzingRef :: bool

definition fs_enhance_request :: "string \<Rightarrow> request" where
  "fs_enhance_request p =
     \<lparr> model = ''gemini-2.5-flash'',
       contents = ContentsText
         (''Refine this art style description into a high-quality, descriptive ''
          @ ''prompt for an AI image generator. Focus on visual aesthetics, medium, ''
          @ ''and technique. Input: '' @ dq @ p @ dq),
       config = None \<rparr>"

definition fs_handleEnhance ::
    "api \<Rightarrow> app_state \<times> filter_studio \<Rightarrow> app_state \<times> filter_studio" where
  "fs_handleEnhance call st =
     (case st of (app, fs) \<Rightarrow>
        if trim (filterPrompt fs) = [] then (app, fs)
        else
          (let fs1 = fs\<lparr> fs_enhancing := True \<rparr>;
               fs2 =
                 (case call (fs_enhance_request (filterPrompt fs)) of
                    Resolved response \<Rightarrow>
                      (case rtext response of
                         None \<Rightarrow> fs1
                       | Some t \<Rightarrow> if t = [] then fs1 else fs1\<lparr> filterPrompt := trim t \<rparr>)
                  | Rejected e \<Rightarrow> fs1)
           in (app, fs2\<lparr> fs_enhancing := False \<rparr>)))"

definition fs_style_request :: "string \<Rightarrow> request" where
  "fs_style_request base64 =
     \<lparr> model = ''gemini-2.5-flash'',
       contents = ContentsParts
         [TextPart
            (''Analyze the visual style, color grading, lighting, filters, and ''
             @ ''texture of this image. Describe ONLY the aesthetic style in a ''
             @ ''comma-separated list of keywords (e.g., '' @ sq
             @ ''grainy film, green tint, high contrast'' @ sq
             @ ''). Do not describe the subject.''),
          InlinePart \<lparr> mimeType = image_mime base64, data = image_data base64 \<rparr>],
       config = None \<rparr>"

definition fs_analyzeRefStyle ::
    "string \<Rightarrow> api \<Rightarrow> app_state \<times> filter_studio \<Rightarrow> app_state \<times> filter_studio" where
  "fs_analyzeRefStyle base64 call st =
     (case st of (app, fs) \<Rightarrow>
        (let fs1 = fs\<lparr> analyzingRef := True \<rparr>;
             fs2 =
               (case call (fs_style_request base64) of
                  Resolved response \<Rightarrow>
                    (case rtext response of
                       None \<Rightarrow> fs1
                     | Some t \<Rightarrow> if t = [] then fs1 else fs1\<lparr> filterPrompt := trim t \<rparr>)
                | Rejected e \<Rightarrow> fs1)
         in (app, fs2\<lparr> analyzingRef := False \<rparr>)))"

subsection \<open>PromptInspector\<close>

record prompt_inspector =
  jsonResult :: "string option"
  pi_loading :: bool
  copied :: bool

definition inspector_request :: "string \<Rightarrow> request" where
  "inspector_request img =
     \<lparr> model = ''gemini-3-pro-preview'',
       contents = ContentsParts
         [TextPart
            (''Extract all visual details from this image and convert them into a ''
             @ ''clean, well-structured JSON prompt. include sections: '' @ sq @ ''subject''
             @ sq @ '', '' @ sq @ ''clothing'' @ sq @ '', '' @ sq @ ''hair'' @ sq @ '', '' @ sq
             @ ''face'' @ sq @ '', '' @ sq @ ''accessories'' @ sq @ '', '' @ sq
             @ ''environment'' @ sq @ '', '' @ sq @ ''lighting'' @ sq @ '', '' @ sq @ ''camera''
             @ sq @ '', '' @ sq @ ''style'' @ sq @ ''. Return ONLY valid JSON.''),
          InlinePart \<lparr> mimeType = image_mime img, data = image_data img \<rparr>],
       config = Some \<lparr> systemInstruction = None, responseMimeType = Some ''application/json'' \<rparr> \<rparr>"

text \<open>\<open>JSON.stringify({ error: "Failed to analyze image." }, null, 2)\<close>.\<close>

definition inspector_failure :: string where
  "inspector_failure =
     ''{'' @ nl @ ''  '' @ dq @ ''error'' @ dq @ '': '' @ dq @ ''Failed to analyze image.'' @ dq @ nl
     @ ''}''"

definition pi_analyzeImage ::
    "string \<Rightarrow> api \<Rightarrow> app_state \<times> prompt_inspector \<Rightarrow> app_state \<times> prompt_inspector" where
  "pi_analyzeImage img call st =
     (case st of (app, ins) \<Rightarrow>
        (let ins1 = ins\<lparr> pi_loading := True, jsonResult := None \<rparr>
         in case call (inspector_request img) of
              Resolved response \<Rightarrow>
                (app,
                 ins1\<lparr> jsonResult :=
                         (case rtext response of
                            None \<Rightarrow> Some ''{}''
                          | Some t \<Rightarrow> if t = [] then Some ''{}'' else Some t),
                       pi_loading := False \<rparr>)
            | Rejected e \<Rightarrow>
                (case isAuthError e of
                   None \<Rightarrow> (app, ins1\<lparr> pi_loading := False \<rparr>)
                 | Some True \<Rightarrow> (onAuthError app, ins1\<lparr> pi_loading := False \<rparr>)
                 | Some False \<Rightarrow>
                     (app, ins1\<lparr> jsonResult := Some inspector_failure, pi_loading := False \<rparr>))))"

subsection \<open>AdvancedCanvas: runGenerator\<close>

datatype node_status = Idle | Loading | Complete

datatype node_type = Source | Generator

record NodeData =
  nimage :: "string option"
  nprompt :: string
  status :: node_status
  result :: "string option"
  nmodel :: string

record Node =
  nid :: string
  ntype :: node_type
  node_x :: real
  node_y :: real
  parentId :: "string option"
  ndata :: NodeData

text \<open>
  \<open>updateNodeData\<close> maps over the node list of the render in which \<open>runGenerator\<close> was
  called; the two uses below change the status, and the result on success.
\<close>

definition updateNodeData :: "string \<Rightarrow> (NodeData \<Rightarrow> NodeData) \<Rightarrow> Node list \<Rightarrow> Node list" where
  "updateNodeData i newData nodes =
     map (\<lambda>n. if nid n = i then n\<lparr> ndata := newData (ndata n) \<rparr> else n) nodes"

definition generator_request :: "string \<Rightarrow> Node \<Rightarrow> request" where
  "generator_request sourceImage node =
     \<lparr> model = modelName (nmodel (ndata node)),
       contents = ContentsParts
         [TextPart
            (''Transform this image based on the following instruction: '' @ dq @ nprompt (ndata node) @
             dq @ ''. Maintain the composition but change style/content significantly as ''
             @ ''requested. High quality photorealistic output.''),
          InlinePart \<lparr> mimeType = image_mime sourceImage, data = image_data sourceImage \<rparr>],
       config = None \<rparr>"

text \<open>\<open>a || b\<close> on nullable strings.\<close>

definition or_else :: "string option \<Rightarrow> string option \<Rightarrow> string option" where
  "or_else a b = (if falsy a then b else a)"

definition runGenerator ::
    "string \<Rightarrow> api \<Rightarrow> app_state \<times> Node list \<Rightarrow> app_state \<times> Node list" where
  "runGenerator nodeId call st =
     (case st of (app, nodes) \<Rightarrow>
        (case List.find (\<lambda>n. nid n = nodeId) nodes of
           None \<Rightarrow> (app, nodes)
         | Some node \<Rightarrow>
             (case parentId node of
                None \<Rightarrow> (app, nodes)
              | Some pid \<Rightarrow>
                  if pid = [] then (app, nodes)
                  else
                    (case List.find (\<lambda>n. nid n = pid) nodes of
                       None \<Rightarrow> (app, nodes)
                     | Some parent \<Rightarrow>
                         (case or_else (result (ndata parent)) (nimage (ndata parent)) of
                            None \<Rightarrow> (app, nodes)
                          | Some sourceImage \<Rightarrow>
                              if sourceImage = [] then (app, nodes)
                              else
                                (case call (generator_request sourceImage node) of
                                   Resolved response \<Rightarrow>
                                     (case generatedBase64 response of
                                        None \<Rightarrow>
                                          (app, updateNodeData nodeId (\<lambda>d. d\<lparr> status := Idle \<rparr>) nodes)
                                      | Some b \<Rightarrow>
                                          if b = [] then
                                            (app, updateNodeData nodeId (\<lambda>d. d\<lparr> status := Idle \<rparr>) nodes)
                                          else
                                            (app,
                                             updateNodeData nodeId
                                               (\<lambda>d. d\<lparr> status := Complete,
                                                       result := Some (data_url_png b) \<rparr>) nodes))
                                 | Rejected e \<Rightarrow>
                                     (case isAuthError e of
                                        None \<Rightarrow>
                                          (app, updateNodeData nodeId (\<lambda>d. d\<lparr> status := Loading \<rparr>) nodes)
                                      | Some True \<Rightarrow>
                                          (onAuthError app,
                                           updateNodeData nodeId (\<lambda>d. d\<lparr> status := Idle \<rparr>) nodes)
                                      | Some False \<Rightarrow>
                                          (app, updateNodeData nodeId (\<lambda>d. d\<lparr> status := Idle \<rparr>) nodes))))))))"

section \<open>The node-graph canvas: zoom and pan\<close>

text \<open>
  Numbers of the canvas are modelled as reals: the properties below use only the order of
  numbers, \<open>min\<close>, \<open>max\<close> and the monotonicity of addition.
\<close>

record canvas_state =
  scale :: real
  offset_x :: real
  offset_y :: real

definition canvas_initial :: canvas_state where
  "canvas_initial = \<lparr> scale = 1, offset_x = 0, offset_y = 0 \<rparr>"

record wheel_event =
  ctrlKey :: bool
  metaKey :: bool
  deltaX :: real
  deltaY :: real

definition handleWheel :: "wheel_event \<Rightarrow> canvas_state \<Rightarrow> canvas_state" where
  "handleWheel e c =
     (if ctrlKey e \<or> metaKey e
      then (let zoomSensitivity = 1 / 1000;
                newScale = min (max (1 / 10) (scale c - deltaY e * zoomSensitivity)) 3
            in c\<lparr> scale := newScale \<rparr>)
      else c\<lparr> offset_x := offset_x c - deltaX e, offset_y := offset_y c - deltaY e \<rparr>)"

definition zoomOut :: "canvas_state \<Rightarrow> canvas_state" where
  "zoomOut c = c\<lparr> scale := max (1 / 10) (scale c - 1 / 10) \<rparr>"

definition zoomIn :: "canvas_state \<Rightarrow> canvas_state" where
  "zoomIn c = c\<lparr> scale := min 3 (scale c + 1 / 10) \<rparr>"

datatype zoom_action = Wheel wheel_event | ZoomOutButton | ZoomInButton

fun zoom_step :: "canvas_state \<Rightarrow> zoom_action \<Rightarrow> canvas_state" where
  "zoom_step c (Wheel e) = handleWheel e c"
| "zoom_step c ZoomOutButton = zoomOut c"
| "zoom_step c ZoomInButton = zoomIn c"

definition zoom_run :: "zoom_action list \<Rightarrow> canvas_state" where
  "zoom_run acts = foldl zoom_step canvas_initial acts"



section \<open>The application as a transition system\<close>

text \<open>
  One event per handler that the rendered page can fire on the application state: the
  named handlers above and the inline ones of the markup (\<open>setFeedback('liked')\<close>,
  \<open>setShowFeedbackOptions(true)\<close>, the compare toggle, the model buttons, the prompt
  box, the blending slider, the navigation buttons, \<open>onAuthError\<close> of a child view, and
  the key check and the key connection, each depending on whether the host page offers
  its key selector). A gallery click loads the item at its position in
  the history. The views Brush, Filters and Prompt open only when an image is present.
\<close>

datatype app_event =
    HandleFile File
  | HandleSceneRefUpload File api
  | EnhancePrompt api
  | GenerateNewBackground api clock
  | ApplyFilter string api clock
  | GenerateWithMask string string api clock
  | HandleReset
  | LoadFromHistory nat
  | HandleDislike string
  | SetFeedbackLiked
  | ShowFeedbackOptions
  | ToggleCompare
  | SetSelectedModel string
  | SetPrompt string
  | SetBlending int
  | Navigate view
  | ChildAuthError
  | KeyChecked "bool option"
  | HandleConnect bool

definition navigate :: "view \<Rightarrow> app_state \<Rightarrow> app_state" where
  "navigate v s =
     (if (v = Brush \<or> v = Filters \<or> v = Inspector) \<and> falsy (originalImage s) then s
      else s\<lparr> activeView := v \<rparr>)"

fun app_step :: "app_state \<Rightarrow> app_event \<Rightarrow> app_state" where
  "app_step s (HandleFile f) = handleFile f s"
| "app_step s (HandleSceneRefUpload f call) = handleSceneRefUpload f call s"
| "app_step s (EnhancePrompt call) = enhancePrompt call s"
| "app_step s (GenerateNewBackground call clk) = generateNewBackground call clk s"
| "app_step s (ApplyFilter fp call clk) = applyFilter fp call clk s"
| "app_step s (GenerateWithMask mb mp call clk) = generateWithMask mb mp call clk s"
| "app_step s HandleReset = handleReset s"
| "app_step s (LoadFromHistory i) =
     (case at_index (history s) i of None \<Rightarrow> s | Some item \<Rightarrow> loadFromHistory item s)"
| "app_step s (HandleDislike reason) = handleDislike reason s"
| "app_step s SetFeedbackLiked = s\<lparr> feedback := Some Liked \<rparr>"
| "app_step s ShowFeedbackOptions = s\<lparr> showFeedbackOptions := True \<rparr>"
| "app_step s ToggleCompare = s\<lparr> isCompareMode := (\<not> isCompareMode s) \<rparr>"
| "app_step s (SetSelectedModel m) = s\<lparr> selectedModel := m \<rparr>"
| "app_step s (SetPrompt p) = s\<lparr> prompt := p \<rparr>"
| "app_step s (SetBlending b) = s\<lparr> blending := b \<rparr>"
| "app_step s (Navigate v) = navigate v s"
| "app_step s ChildAuthError = onAuthError s"
| "app_step s (KeyChecked has) =
     (case has of
        None \<Rightarrow> s\<lparr> isInitialLoad := False \<rparr>
      | Some h \<Rightarrow> s\<lparr> hasApiKey := h, isInitialLoad := False \<rparr>)"
| "app_step s (HandleConnect aistudio) = (if aistudio then s\<lparr> hasApiKey := True \<rparr> else s)"

definition app_run :: "app_event list \<Rightarrow> app_state \<Rightarrow> app_state" where
  "app_run evs s = foldl app_step s evs"

text \<open>The reading of the clock that an event makes, if it makes one.\<close>

fun event_clock :: "app_event \<Rightarrow> int option" where
  "event_clock (GenerateNewBackground call clk) = Some (now clk)"
| "event_clock (ApplyFilter fp call clk) = Some (now clk)"
| "event_clock (GenerateWithMask mb mp call clk) = Some (now clk)"
| "event_clock e = None"

text \<open>The clock never runs backwards along a series of events, starting from time \<open>t\<close>.\<close>

fun clock_ascending :: "int \<Rightarrow> app_event list \<Rightarrow> bool" where
  "clock_ascending t [] = True"
| "clock_ascending t (e # es) =
     (case event_clock e of
        None \<Rightarrow> clock_ascending t es
      | Some t' \<Rightarrow> t \<le> t' \<and> clock_ascending t' es)"

text \<open>
  Newest first: the creation times of the records do not increase from the front of the
  list to its end, and none lies after \<open>t\<close>.
\<close>

definition newest_first :: "HistoryItem list \<Rightarrow> bool" where
  "newest_first h = sorted_wrt (\<lambda>a b. hid b \<le> hid a) h"

definition none_after :: "int \<Rightarrow> HistoryItem list \<Rightarrow> bool" where
  "none_after t h = list_all (\<lambda>i. hid i \<le> t) h"

text \<open>
  A data URL begins with \<open>data:\<close>; an object URL, as \<open>URL.createObjectURL\<close> of the
  browser makes it, begins with \<open>blob:\<close>.
\<close>

definition is_data_url :: "string \<Rightarrow> bool" where
  "is_data_url u = startsWith u ''data:''"

definition is_object_url :: "string \<Rightarrow> bool" where
  "is_object_url u = startsWith u ''blob:''"

fun holds_data_url :: "string option \<Rightarrow> bool" where
  "holds_data_url None = True"
| "holds_data_url (Some u) = is_data_url u"

text \<open>Every image that the state holds is a data URL.\<close>

definition images_are_data_urls :: "app_state \<Rightarrow> bool" where
  "images_are_data_urls s =
     (holds_data_url (originalImage s) \<and> holds_data_url (generatedImage s)
      \<and> holds_data_url (sceneRefImage s)
      \<and> list_all (\<lambda>i. is_data_url (original i) \<and> is_data_url (generated i)) (history s))"

text \<open>A response has an inline part when some part of it carries \<open>inlineData\<close>.\<close>

definition has_inline_part :: "GenerateContentResponse \<Rightarrow> bool" where
  "has_inline_part r =
     (case response_parts r of
        None \<Rightarrow> False
      | Some ps \<Rightarrow> list_ex (\<lambda>p. inlineData p \<noteq> None) ps)"

section \<open>Guards, failures and sample inputs\<close>

text \<open>The entry guards of the generation operations, as conditions on the state.\<close>

definition image_missing :: "app_state \<Rightarrow> bool" where
  "image_missing s = falsy (originalImage s)"

definition background_blocked :: "app_state \<Rightarrow> bool" where
  "background_blocked s = (falsy (originalImage s) \<or> trim (prompt s) = [])"






text \<open>
  A failure that is not an auth error: the call rejects with a value that
  \<open>isAuthError\<close> answers \<open>false\<close> for, or it resolves with a response that yields no
  image data, for which the operation throws its own error.
\<close>

fun non_auth_failure :: "outcome \<Rightarrow> bool" where
  "non_auth_failure (Rejected e) = (isAuthError e = Some False)"
| "non_auth_failure (Resolved r) = falsy (generatedBase64 r)"

text \<open>
  An upload whose MIME type and base64 text contain none of the separators that the
  application splits a data URL at.
\<close>

definition clean_upload :: "File \<Rightarrow> bool" where
  "clean_upload f =
     (CHR '','' \<notin> set (ftype f) \<and> CHR '';'' \<notin> set (ftype f) \<and> CHR '':'' \<notin> set (ftype f)
      \<and> CHR '','' \<notin> set (fbase64 f))"

text \<open>Sample inputs: an uploaded PNG, a prompt, a clock reading, responses and errors.\<close>

definition sample_file :: File where
  "sample_file = \<lparr> ftype = ''image/png'', fbase64 = ''QUJD'' \<rparr>"

definition sample_state :: app_state where
  "sample_state =
     app_run [KeyChecked (Some True), HandleFile sample_file, SetPrompt ''a beach''] initial_state"




definition sample_clock :: clock where
  "sample_clock = \<lparr> now = 1000, timeString = ''10:00:00 AM'' \<rparr>"

definition response_of_parts :: "Part list \<Rightarrow> GenerateContentResponse" where
  "response_of_parts ps =
     \<lparr> candidates = Some [\<lparr> content = Some \<lparr> parts = Some ps \<rparr> \<rparr>], rtext = None \<rparr>"

definition sample_response :: GenerateContentResponse where
  "sample_response =
     response_of_parts
       [\<lparr> ptext = Some ''Here is your image.'', inlineData = None \<rparr>,
        \<lparr> ptext = None,
          inlineData = Some \<lparr> mimeType = Some ''image/png'', data = Some ''WFla'' \<rparr> \<rparr>]"

text \<open>A response whose first inline part has no data, followed by one that has.\<close>

definition dataless_response :: GenerateContentResponse where
  "dataless_response =
     response_of_parts
       [\<lparr> ptext = None, inlineData = Some \<lparr> mimeType = Some ''image/png'', data = None \<rparr> \<rparr>,
        \<lparr> ptext = None,
          inlineData = Some \<lparr> mimeType = Some ''image/png'', data = Some ''WFla'' \<rparr> \<rparr>]"

definition text_only_response :: GenerateContentResponse where
  "text_only_response =
     response_of_parts [\<lparr> ptext = Some ''I cannot draw that.'', inlineData = None \<rparr>]"

text \<open>The state after a successful generation that the user has liked.\<close>

definition liked_state :: app_state where
  "liked_state =
     app_run [GenerateNewBackground (\<lambda>_. Resolved sample_response) sample_clock,
              SetFeedbackLiked] sample_state"

text \<open>
  A session: key check, upload, prompt, a generation, a filter one second later, a
  failed mask edit, a gallery click, a dislike.
\<close>

definition sample_session :: "app_event list" where
  "sample_session =
     [KeyChecked (Some True), HandleFile sample_file, SetPrompt ''a beach'',
      GenerateNewBackground (\<lambda>_. Resolved sample_response) sample_clock,
      Navigate Filters,
      ApplyFilter ''Vintage'' (\<lambda>_. Resolved sample_response)
        \<lparr> now = 2000, timeString = ''10:00:01 AM'' \<rparr>,
      Navigate Brush,
      GenerateWithMask ''data:image/png;base64,TUFTSw=='' ''add a hat''
        (\<lambda>_. Resolved text_only_response) \<lparr> now = 3000, timeString = ''10:00:02 AM'' \<rparr>,
      Navigate Gallery, LoadFromHistory 1, ShowFeedbackOptions, HandleDislike ''lighting'']"

definition error_500 :: thrown where
  "error_500 = ErrObject ''Error: 500 Internal Server Error'' ''{}''"

definition error_403 :: thrown where
  "error_403 = ErrObject ''Error: 403 Forbidden'' ''{}''"

definition sample_studio :: filter_studio where
  "sample_studio =
     \<lparr> filterPrompt = ''oil painting'', fs_enhancing = False, refImage = None,
       analyzingRef = False \<rparr>"

section \<open>Properties of handleReset\<close>

text \<open>
  Claim C8. \<open>handleReset\<close> clears the current image, the generated image, the scene
  reference image, the prompt, the error, the feedback, the feedback-options flag and the
  compare mode, and sets the view to the editor; the history list, the learning profile,
  the selected model and the blending level keep their values, and so does every other
  field of the state.
\<close>

theorem handleReset_frame:
  "originalImage (handleReset s) = None \<and> generatedImage (handleReset s) = None
   \<and> sceneRefImage (handleReset s) = None \<and> prompt (handleReset s) = []
   \<and> error (handleReset s) = [] \<and> feedback (handleReset s) = None
   \<and> showFeedbackOptions (handleReset s) = False \<and> isCompareMode (handleReset s) = False
   \<and> activeView (handleReset s) = Editor
   \<and> history (handleReset s) = history s
   \<and> learningProfile (handleReset s) = learningProfile s
   \<and> selectedModel (handleReset s) = selectedModel s
   \<and> blending (handleReset s) = blending s
   \<and> hasApiKey (handleReset s) = hasApiKey s
   \<and> isInitialLoad (handleReset s) = isInitialLoad s
   \<and> loading (handleReset s) = loading s
   \<and> enhancing (handleReset s) = enhancing s
   \<and> analyzingSceneRef (handleReset s) = analyzingSceneRef s"
  by (simp add: handleReset_def)

section \<open>Properties of the canvas zoom\<close>

lemma zoom_step_bounds:
  "1 / 10 \<le> scale c \<Longrightarrow> scale c \<le> 3 \<Longrightarrow>
   1 / 10 \<le> scale (zoom_step c a) \<and> scale (zoom_step c a) \<le> 3"
  by (cases a) (simp_all add: handleWheel_def zoomOut_def zoomIn_def Let_def min_def max_def)

lemma zoom_foldl_bounds:
  "1 / 10 \<le> scale c \<Longrightarrow> scale c \<le> 3 \<Longrightarrow>
   1 / 10 \<le> scale (foldl zoom_step c acts) \<and> scale (foldl zoom_step c acts) \<le> 3"
proof (induction acts arbitrary: c)
  case Nil
  then show ?case by simp
next
  case (Cons a acts)
  from zoom_step_bounds [OF Cons.prems] Cons.IH [of "zoom_step c a"]
  show ?case by simp
qed

text \<open>
  Claim C9. Starting from scale 1, after any series of zoom actions (wheel events with or
  without ctrl/meta, the zoom-out button, the zoom-in button) the scale of the canvas is
  at least 0.1 and at most 3.
\<close>

theorem zoom_scale_bounded:
  "1 / 10 \<le> scale (zoom_run acts) \<and> scale (zoom_run acts) \<le> 3"
  unfolding zoom_run_def
  by (rule zoom_foldl_bounds) (simp_all add: canvas_initial_def)

section \<open>Properties of handleDislike\<close>

lemma dislike_choice_corrections [simp]:
  "corrections (snd (dislike_choice r p)) = corrections p"
  by (simp add: dislike_choice_def)

lemma handleDislike_corrections_eq:
  "corrections (learningProfile (handleDislike r s)) =
     (let c = fst (dislike_choice r (learningProfile s)); cs = corrections (learningProfile s)
      in if c = [] \<or> c \<in> set cs then cs else cs @ [c])"
  by (simp add: handleDislike_def push_correction_def Let_def case_prod_beta)

lemma fst_dislike_choice_indep: "fst (dislike_choice r p) = fst (dislike_choice r q)"
  by (simp add: dislike_choice_def)

lemma handleDislike_distinct:
  "distinct (corrections (learningProfile s)) \<Longrightarrow>
   distinct (corrections (learningProfile (handleDislike r s)))"
  by (simp add: handleDislike_corrections_eq Let_def)

lemma handleDislike_twice:
  "corrections (learningProfile (handleDislike r (handleDislike r s))) =
   corrections (learningProfile (handleDislike r s))"
  using fst_dislike_choice_indep [of r "learningProfile (handleDislike r s)" "learningProfile s"]
  by (simp add: handleDislike_corrections_eq Let_def)

lemma handleDislike_repeat:
  "corrections (learningProfile ((handleDislike r ^^ Suc n) s)) =
   corrections (learningProfile (handleDislike r s))"
proof (induction n)
  case 0
  show ?case by simp
next
  case (Suc n)
  have "corrections (learningProfile ((handleDislike r ^^ Suc (Suc n)) s)) =
        corrections (learningProfile (handleDislike r ((handleDislike r ^^ Suc n) s)))"
    by simp
  also have "\<dots> = (let c = fst (dislike_choice r (learningProfile ((handleDislike r ^^ Suc n) s)));
                      cs = corrections (learningProfile ((handleDislike r ^^ Suc n) s))
                  in if c = [] \<or> c \<in> set cs then cs else cs @ [c])"
    by (rule handleDislike_corrections_eq)
  also have "\<dots> = (let c = fst (dislike_choice r (learningProfile (handleDislike r s)));
                      cs = corrections (learningProfile (handleDislike r s))
                  in if c = [] \<or> c \<in> set cs then cs else cs @ [c])"
    using Suc.IH fst_dislike_choice_indep [of r "learningProfile ((handleDislike r ^^ Suc n) s)" "learningProfile (handleDislike r s)"]
    by (simp only:)
  also have "\<dots> = corrections (learningProfile (handleDislike r (handleDislike r s)))"
    by (rule handleDislike_corrections_eq [symmetric])
  also have "\<dots> = corrections (learningProfile (handleDislike r s))"
    by (rule handleDislike_twice)
  finally show ?case .
qed

lemma lighting_counter_step:
  "lightingEmphasis (learningProfile (handleDislike ''lighting'' s)) =
   lightingEmphasis (learningProfile s) + 1"
  by (simp add: handleDislike_def push_correction_def dislike_choice_def Let_def)

lemma cutout_counter_step:
  "blendingStrictness (learningProfile (handleDislike ''cutout'' s)) =
   blendingStrictness (learningProfile s) + 1"
  by (simp add: handleDislike_def push_correction_def dislike_choice_def Let_def)

lemma lighting_counter_repeat:
  "lightingEmphasis (learningProfile ((handleDislike ''lighting'' ^^ n) s)) =
   lightingEmphasis (learningProfile s) + int n"
  by (induction n) (simp_all add: lighting_counter_step)

lemma cutout_counter_repeat:
  "blendingStrictness (learningProfile ((handleDislike ''cutout'' ^^ n) s)) =
   blendingStrictness (learningProfile s) + int n"
  by (induction n) (simp_all add: cutout_counter_step)

lemma added_lighting:
  "set (corrections (learningProfile (handleDislike ''lighting'' s))) =
   insert correction_lighting (set (corrections (learningProfile s)))"
  by (auto simp: handleDislike_corrections_eq Let_def dislike_choice_def correction_lighting_def)

lemma added_cutout:
  "set (corrections (learningProfile (handleDislike ''cutout'' s))) =
   insert correction_cutout (set (corrections (learningProfile s)))"
  by (auto simp: handleDislike_corrections_eq Let_def dislike_choice_def correction_cutout_def)

lemma added_fake:
  "set (corrections (learningProfile (handleDislike ''fake'' s))) =
   insert correction_fake (set (corrections (learningProfile s)))"
  by (auto simp: handleDislike_corrections_eq Let_def dislike_choice_def correction_fake_def)

section \<open>Properties of the generation operations\<close>

lemma falsy_iff: "falsy x \<longleftrightarrow> x = None \<or> x = Some []"
  by (cases x) auto

lemma no_image_not_auth: "isAuthError no_image_error = Some False"
  by (simp add: isAuthError_def no_image_error_def auth_marker_def toLowerCase_def
      startsWith_def lower_char_def)

lemma error_500_not_auth: "isAuthError error_500 = Some False"
  by (simp add: isAuthError_def error_500_def auth_marker_def toLowerCase_def
      startsWith_def lower_char_def)

lemma error_403_auth: "isAuthError error_403 = Some True"
  by (simp add: isAuthError_def error_403_def auth_marker_def toLowerCase_def
      startsWith_def lower_char_def)

lemma catch_generation_non_auth:
  "isAuthError e = Some False \<Longrightarrow>
   catch_generation msg e s = s\<lparr> error := msg, loading := False \<rparr>"
  by (simp add: catch_generation_def)


lemma catch_generation_keeps:
  "history (catch_generation msg e s) = history s"
  "generatedImage (catch_generation msg e s) = generatedImage s"
  "originalImage (catch_generation msg e s) = originalImage s"
  "sceneRefImage (catch_generation msg e s) = sceneRefImage s"
  by (simp_all add: catch_generation_def split: option.splits bool.splits)

subsection \<open>What a settled call does to the state\<close>

lemma background_complete_failure:
  "non_auth_failure out \<Longrightarrow>
   generateNewBackground_complete out clk img c s =
     s\<lparr> error := background_message, loading := False \<rparr>"
  by (cases out)
     (auto simp: generateNewBackground_complete_def catch_generation_non_auth
        no_image_not_auth falsy_iff split: option.splits)

lemma filter_complete_failure:
  "non_auth_failure out \<Longrightarrow>
   applyFilter_complete fp out clk img c s = s\<lparr> error := filter_message, loading := False \<rparr>"
  by (cases out)
     (auto simp: applyFilter_complete_def catch_generation_non_auth
        no_image_not_auth falsy_iff split: option.splits)

lemma mask_complete_failure:
  "non_auth_failure out \<Longrightarrow>
   generateWithMask_complete mp out clk img c s = s\<lparr> error := mask_message, loading := False \<rparr>"
  by (cases out)
     (auto simp: generateWithMask_complete_def catch_generation_non_auth
        no_image_not_auth falsy_iff split: option.splits)




lemma background_complete_success:
  "generatedBase64 r = Some b \<Longrightarrow> b \<noteq> [] \<Longrightarrow>
   generateNewBackground_complete (Resolved r) clk img c s =
     s\<lparr> generatedImage := Some (data_url_png b),
        history :=
          \<lparr> hid = now clk, original = img, generated = data_url_png b, hprompt = prompt c,
            timestamp = timeString clk, hmodel = selectedModel c \<rparr> # history s,
        loading := False \<rparr>"
  by (simp add: generateNewBackground_complete_def)

lemma filter_complete_success:
  "generatedBase64 r = Some b \<Longrightarrow> b \<noteq> [] \<Longrightarrow>
   applyFilter_complete fp (Resolved r) clk img c s =
     s\<lparr> generatedImage := Some (data_url_png b),
        history :=
          \<lparr> hid = now clk, original = img, generated = data_url_png b,
            hprompt = ''Filter: '' @ fp, timestamp = timeString clk,
            hmodel = selectedModel c \<rparr> # history s,
        activeView := Editor, loading := False \<rparr>"
  by (simp add: applyFilter_complete_def)

lemma mask_complete_success:
  "generatedBase64 r = Some b \<Longrightarrow> b \<noteq> [] \<Longrightarrow>
   generateWithMask_complete mp (Resolved r) clk img c s =
     s\<lparr> generatedImage := Some (data_url_png b),
        history :=
          \<lparr> hid = now clk, original = img, generated = data_url_png b, hprompt = mp,
            timestamp = timeString clk, hmodel = selectedModel c \<rparr> # history s,
        activeView := Editor, loading := False \<rparr>"
  by (simp add: generateWithMask_complete_def)

subsection \<open>The operations with their guards\<close>

lemma generateNewBackground_unfold:
  "generateNewBackground call clk s =
     (case originalImage s of
        None \<Rightarrow> s
      | Some img \<Rightarrow>
          if img = [] \<or> trim (prompt s) = [] then s
          else generateNewBackground_complete (call (background_request img s)) clk img s
                 (generateNewBackground_begin s))"
  by (simp add: generateNewBackground_def generateNewBackground_states_def Let_def
      split: option.splits)

lemma applyFilter_unfold:
  "applyFilter fp call clk s =
     (case originalImage s of
        None \<Rightarrow> s
      | Some img \<Rightarrow>
          if img = [] then s
          else applyFilter_complete fp (call (filter_request fp img s)) clk img s
                 (applyFilter_begin s))"
  by (simp add: applyFilter_def applyFilter_states_def Let_def split: option.splits)

lemma generateWithMask_unfold:
  "generateWithMask mb mp call clk s =
     (case originalImage s of
        None \<Rightarrow> s
      | Some img \<Rightarrow>
          if img = [] then s
          else generateWithMask_complete mp (call (mask_request mb mp img s)) clk img s
                 (generateWithMask_begin s))"
  by (simp add: generateWithMask_def generateWithMask_states_def Let_def split: option.splits)

lemma background_run:
  "originalImage s = Some img \<Longrightarrow> img \<noteq> [] \<Longrightarrow> trim (prompt s) \<noteq> [] \<Longrightarrow>
   generateNewBackground call clk s =
     generateNewBackground_complete (call (background_request img s)) clk img s
       (generateNewBackground_begin s)"
  by (simp add: generateNewBackground_unfold)

lemma filter_run:
  "originalImage s = Some img \<Longrightarrow> img \<noteq> [] \<Longrightarrow>
   applyFilter fp call clk s =
     applyFilter_complete fp (call (filter_request fp img s)) clk img s (applyFilter_begin s)"
  by (simp add: applyFilter_unfold)

lemma mask_run:
  "originalImage s = Some img \<Longrightarrow> img \<noteq> [] \<Longrightarrow>
   generateWithMask mb mp call clk s =
     generateWithMask_complete mp (call (mask_request mb mp img s)) clk img s
       (generateWithMask_begin s)"
  by (simp add: generateWithMask_unfold)

lemma background_blocked_run:
  "background_blocked s \<Longrightarrow> generateNewBackground call clk s = s"
  by (auto simp: background_blocked_def generateNewBackground_unfold falsy_iff split: option.splits)

lemma filter_blocked_run: "image_missing s \<Longrightarrow> applyFilter fp call clk s = s"
  by (auto simp: image_missing_def applyFilter_unfold falsy_iff split: option.splits)

lemma mask_blocked_run: "image_missing s \<Longrightarrow> generateWithMask mb mp call clk s = s"
  by (auto simp: image_missing_def generateWithMask_unfold falsy_iff split: option.splits)




subsection \<open>The sample inputs, evaluated\<close>

lemma sample_state_eq:
  "sample_state =
     initial_state\<lparr> hasApiKey := True, isInitialLoad := False,
        originalImage := Some ''data:image/png;base64,QUJD'', prompt := ''a beach'' \<rparr>"
  by (simp add: sample_state_def app_run_def handleFile_def sample_file_def startsWith_def
      readAsDataURL_def initial_state_def)

lemma sample_image: "originalImage sample_state = Some ''data:image/png;base64,QUJD''"
  by (simp add: sample_state_eq)

lemma sample_prompt: "trim (prompt sample_state) \<noteq> []"
  by (simp add: sample_state_eq trim_def is_ws_def)

lemma sample_response_data: "generatedBase64 sample_response = Some ''WFla''"
  by (simp add: generatedBase64_def response_parts_def sample_response_def
      response_of_parts_def)

lemma dataless_response_data: "generatedBase64 dataless_response = None"
  by (simp add: generatedBase64_def response_parts_def dataless_response_def
      response_of_parts_def)

lemma text_only_response_data: "generatedBase64 text_only_response = None"
  by (simp add: generatedBase64_def response_parts_def text_only_response_def
      response_of_parts_def)

subsection \<open>Failure with an error that is not an auth error\<close>

text \<open>
  Claim C3, as the code has it. When a generation operation that has passed its guard
  fails with an error that is not an auth error, \<open>applyFilter\<close> and
  \<open>generateWithMask\<close> change the state in two fields only: the error becomes the fixed
  message of the operation and the loading flag is cleared. \<open>generateNewBackground\<close>
  does the same and, having cleared them before the request, also leaves the feedback
  empty and the feedback-options flag off. The original image, the generated image and
  the history list keep their values in all three.
\<close>

theorem generation_failure_frame:
  assumes "originalImage s = Some img" and "img \<noteq> []"
  shows
    "(trim (prompt s) \<noteq> [] \<and> non_auth_failure (call (background_request img s)) \<longrightarrow>
        generateNewBackground call clk s =
          s\<lparr> error := background_message, loading := False, feedback := None,
             showFeedbackOptions := False \<rparr>)
     \<and> (non_auth_failure (call (filter_request fp img s)) \<longrightarrow>
        applyFilter fp call clk s = s\<lparr> error := filter_message, loading := False \<rparr>)
     \<and> (non_auth_failure (call (mask_request mb mp img s)) \<longrightarrow>
        generateWithMask mb mp call clk s = s\<lparr> error := mask_message, loading := False \<rparr>)"
  using assms
  by (simp add: background_run filter_run mask_run background_complete_failure
      filter_complete_failure mask_complete_failure generateNewBackground_begin_def
      applyFilter_begin_def generateWithMask_begin_def)

theorem generation_failure_frame_witness:
  "generateNewBackground (\<lambda>_. Rejected error_500) sample_clock sample_state =
     sample_state\<lparr> error := background_message, loading := False, feedback := None,
        showFeedbackOptions := False \<rparr>
   \<and> applyFilter ''Vintage'' (\<lambda>_. Resolved text_only_response) sample_clock sample_state =
     sample_state\<lparr> error := filter_message, loading := False \<rparr>
   \<and> generateWithMask ''data:image/png;base64,TUFTSw=='' ''add a hat''
       (\<lambda>_. Rejected error_500) sample_clock sample_state =
     sample_state\<lparr> error := mask_message, loading := False \<rparr>"
  using generation_failure_frame [of sample_state "''data:image/png;base64,QUJD''"
      "\<lambda>_. Rejected error_500" sample_clock "''Vintage''" "''data:image/png;base64,TUFTSw==''"
      "''add a hat''"]
    generation_failure_frame [of sample_state "''data:image/png;base64,QUJD''"
      "\<lambda>_. Resolved text_only_response" sample_clock "''Vintage''" "[]" "[]"]
  by (simp add: sample_image sample_prompt error_500_not_auth text_only_response_data)

text \<open>
  The claim as stated fails for \<open>generateNewBackground\<close>: a failed run is not without
  other effect, since a recorded like is gone after it.
\<close>

theorem generation_failure_counterexample:
  "non_auth_failure (Rejected error_500)
   \<and> feedback liked_state = Some Liked
   \<and> feedback (generateNewBackground (\<lambda>_. Rejected error_500) sample_clock liked_state) = None"
  by (simp add: error_500_not_auth liked_state_def app_run_def sample_state_eq
      generateNewBackground_unfold generateNewBackground_complete_def
      generateNewBackground_begin_def sample_response_data catch_generation_def
      initial_state_def trim_def is_ws_def)

subsection \<open>The loading flag\<close>


































subsection \<open>The shared history list\<close>

lemma catch_generation_history_step:
  "history (catch_generation msg e s) = history s"
  by (simp add: catch_generation_def split: option.splits bool.splits)

lemma background_complete_history:
  "history (generateNewBackground_complete out clk img c s) = history s
   \<or> (\<exists>item. hid item = now clk \<and>
         history (generateNewBackground_complete out clk img c s) = item # history s)"
  by (simp add: generateNewBackground_complete_def catch_generation_history_step
      split: outcome.splits option.splits)

lemma filter_complete_history:
  "history (applyFilter_complete fp out clk img c s) = history s
   \<or> (\<exists>item. hid item = now clk \<and>
         history (applyFilter_complete fp out clk img c s) = item # history s)"
  by (simp add: applyFilter_complete_def catch_generation_history_step
      split: outcome.splits option.splits)

lemma mask_complete_history:
  "history (generateWithMask_complete mp out clk img c s) = history s
   \<or> (\<exists>item. hid item = now clk \<and>
         history (generateWithMask_complete mp out clk img c s) = item # history s)"
  by (simp add: generateWithMask_complete_def catch_generation_history_step
      split: outcome.splits option.splits)

lemma background_history:
  "history (generateNewBackground call clk s) = history s
   \<or> (\<exists>item. hid item = now clk \<and>
         history (generateNewBackground call clk s) = item # history s)"
proof (cases "background_blocked s")
  case True
  then show ?thesis by (simp add: background_blocked_run)
next
  case False
  then obtain img where "originalImage s = Some img" "img \<noteq> []" "trim (prompt s) \<noteq> []"
    by (auto simp: background_blocked_def falsy_iff)
  then have "generateNewBackground call clk s =
      generateNewBackground_complete (call (background_request img s)) clk img s
        (generateNewBackground_begin s)"
    by (rule background_run)
  moreover have "history (generateNewBackground_begin s) = history s"
    by (simp add: generateNewBackground_begin_def)
  ultimately show ?thesis
    using background_complete_history
      [of "call (background_request img s)" clk img s "generateNewBackground_begin s"]
    by simp
qed

lemma filter_history:
  "history (applyFilter fp call clk s) = history s
   \<or> (\<exists>item. hid item = now clk \<and> history (applyFilter fp call clk s) = item # history s)"
proof (cases "image_missing s")
  case True
  then show ?thesis by (simp add: filter_blocked_run)
next
  case False
  then obtain img where "originalImage s = Some img" "img \<noteq> []"
    by (auto simp: image_missing_def falsy_iff)
  then have "applyFilter fp call clk s =
      applyFilter_complete fp (call (filter_request fp img s)) clk img s (applyFilter_begin s)"
    by (rule filter_run)
  moreover have "history (applyFilter_begin s) = history s"
    by (simp add: applyFilter_begin_def)
  ultimately show ?thesis
    using filter_complete_history
      [of fp "call (filter_request fp img s)" clk img s "applyFilter_begin s"]
    by simp
qed

lemma mask_history:
  "history (generateWithMask mb mp call clk s) = history s
   \<or> (\<exists>item. hid item = now clk \<and>
         history (generateWithMask mb mp call clk s) = item # history s)"
proof (cases "image_missing s")
  case True
  then show ?thesis by (simp add: mask_blocked_run)
next
  case False
  then obtain img where "originalImage s = Some img" "img \<noteq> []"
    by (auto simp: image_missing_def falsy_iff)
  then have "generateWithMask mb mp call clk s =
      generateWithMask_complete mp (call (mask_request mb mp img s)) clk img s
        (generateWithMask_begin s)"
    by (rule mask_run)
  moreover have "history (generateWithMask_begin s) = history s"
    by (simp add: generateWithMask_begin_def)
  ultimately show ?thesis
    using mask_complete_history
      [of mp "call (mask_request mb mp img s)" clk img s "generateWithMask_begin s"]
    by simp
qed

lemma analyzeSceneRef_history: "history (analyzeSceneRef b call s) = history s"
  by (simp add: analyzeSceneRef_def Let_def split: outcome.splits option.splits bool.splits)

lemma handleSceneRefUpload_history: "history (handleSceneRefUpload f call s) = history s"
  by (simp add: handleSceneRefUpload_def analyzeSceneRef_history)

lemma enhancePrompt_history: "history (enhancePrompt call s) = history s"
  by (simp add: enhancePrompt_def Let_def split: outcome.splits option.splits bool.splits)

lemma handleDislike_history: "history (handleDislike r s) = history s"
  by (simp add: handleDislike_def Let_def case_prod_beta)

text \<open>Only an event that reads the clock can change the history, by one record in front.\<close>

lemma app_step_history:
  "history (app_step s e) = history s
   \<or> (\<exists>item. event_clock e = Some (hid item) \<and> history (app_step s e) = item # history s)"
proof (cases e)
  case (GenerateNewBackground call clk)
  then show ?thesis using background_history [of call clk s] by auto
next
  case (ApplyFilter fp call clk)
  then show ?thesis using filter_history [of fp call clk s] by auto
next
  case (GenerateWithMask mb mp call clk)
  then show ?thesis using mask_history [of mb mp call clk s] by auto
qed (simp_all add: handleFile_def handleSceneRefUpload_history enhancePrompt_history
    handleReset_def loadFromHistory_def handleDislike_history navigate_def onAuthError_def
    split: option.splits)

lemma none_after_mono: "none_after t h \<Longrightarrow> t \<le> t' \<Longrightarrow> none_after t' h"
  by (induction h) (auto simp: none_after_def)

lemma newest_first_Cons:
  "newest_first h \<Longrightarrow> none_after t h \<Longrightarrow> t \<le> hid item \<Longrightarrow> newest_first (item # h)"
  by (auto simp: newest_first_def none_after_def list_all_iff)

lemma app_run_newest_first:
  "newest_first (history s) \<Longrightarrow> none_after t (history s) \<Longrightarrow> clock_ascending t evs \<Longrightarrow>
   newest_first (history (foldl app_step s evs))"
proof (induction evs arbitrary: s t)
  case Nil
  then show ?case by simp
next
  case (Cons e evs)
  show ?case
  proof (cases "event_clock e")
    case None
    with app_step_history [of s e] have "history (app_step s e) = history s" by auto
    with Cons.prems None Cons.IH [of "app_step s e" t] show ?thesis by simp
  next
    case (Some t')
    with Cons.prems have le: "t \<le> t'" and asc: "clock_ascending t' evs" by simp_all
    from app_step_history [of s e] show ?thesis
    proof
      assume same: "history (app_step s e) = history s"
      with Cons.prems le have "none_after t' (history (app_step s e))"
        by (simp add: none_after_mono)
      with same Cons.prems asc Cons.IH [of "app_step s e" t'] show ?thesis by simp
    next
      assume "\<exists>item. event_clock e = Some (hid item) \<and> history (app_step s e) = item # history s"
      then obtain item where it: "hid item = t'" "history (app_step s e) = item # history s"
        using Some by auto
      with Cons.prems le have nf: "newest_first (history (app_step s e))"
        by (simp add: newest_first_Cons)
      from it Cons.prems le have "none_after t' (history (app_step s e))"
        using none_after_mono [of t "history s" t'] by (simp add: none_after_def)
      with nf asc Cons.IH [of "app_step s e" t'] show ?thesis by simp
    qed
  qed
qed

lemma app_step_history_suffix: "suffix (history s) (history (app_step s e))"
  using app_step_history [of s e] by (auto simp: suffix_Cons)

lemma app_run_history_suffix: "suffix (history s) (history (app_run evs s))"
  unfolding app_run_def
proof (induction evs arbitrary: s)
  case Nil
  show ?case by simp
next
  case (Cons e evs)
  from app_step_history_suffix [of s e] Cons.IH [of "app_step s e"]
  show ?case by (auto intro: suffix_order.trans)
qed

text \<open>
  Claim C1. The three generation operations write to the one history list of the state.
  A run that passes its guard and whose response yields image data puts exactly one new
  record in front of the list, with the image the run started from, the generated data
  URL, the prompt, the time string and the selected model. No other handler changes the
  list: along any series of events the earlier history stays in place behind the records
  added since, and with a clock that never runs backwards the creation times never
  increase from the front of the list to its end.
\<close>

theorem history_prepend_newest_first:
  assumes "originalImage s = Some img" and "img \<noteq> []"
    and "generatedBase64 r = Some b" and "b \<noteq> []"
  shows
    "(trim (prompt s) \<noteq> [] \<and> call (background_request img s) = Resolved r \<longrightarrow>
        history (generateNewBackground call clk s) =
          \<lparr> hid = now clk, original = img, generated = data_url_png b, hprompt = prompt s,
            timestamp = timeString clk, hmodel = selectedModel s \<rparr> # history s)
     \<and> (call (filter_request fp img s) = Resolved r \<longrightarrow>
        history (applyFilter fp call clk s) =
          \<lparr> hid = now clk, original = img, generated = data_url_png b,
            hprompt = ''Filter: '' @ fp, timestamp = timeString clk,
            hmodel = selectedModel s \<rparr> # history s)
     \<and> (call (mask_request mb mp img s) = Resolved r \<longrightarrow>
        history (generateWithMask mb mp call clk s) =
          \<lparr> hid = now clk, original = img, generated = data_url_png b, hprompt = mp,
            timestamp = timeString clk, hmodel = selectedModel s \<rparr> # history s)
     \<and> suffix (history s) (history (app_run evs s))
     \<and> (clock_ascending t evs \<longrightarrow> newest_first (history (app_run evs initial_state)))"
proof -
  have run: "clock_ascending t evs \<longrightarrow> newest_first (history (app_run evs initial_state))"
    unfolding app_run_def
    using app_run_newest_first [of initial_state t evs]
    by (simp add: initial_state_def newest_first_def none_after_def)
  show ?thesis
    using assms run app_run_history_suffix [of s evs]
    by (simp add: background_run filter_run mask_run background_complete_success
        filter_complete_success mask_complete_success generateNewBackground_begin_def
        applyFilter_begin_def generateWithMask_begin_def)
qed

theorem history_prepend_newest_first_witness:
  "history (generateNewBackground (\<lambda>_. Resolved sample_response) sample_clock sample_state) =
     [\<lparr> hid = 1000, original = ''data:image/png;base64,QUJD'',
        generated = ''data:image/png;base64,WFla'', hprompt = ''a beach'',
        timestamp = ''10:00:00 AM'', hmodel = ''nano-banana-1'' \<rparr>]
   \<and> history (applyFilter ''Vintage'' (\<lambda>_. Resolved sample_response) sample_clock sample_state) =
     [\<lparr> hid = 1000, original = ''data:image/png;base64,QUJD'',
        generated = ''data:image/png;base64,WFla'', hprompt = ''Filter: Vintage'',
        timestamp = ''10:00:00 AM'', hmodel = ''nano-banana-1'' \<rparr>]
   \<and> history (generateWithMask ''data:image/png;base64,TUFTSw=='' ''add a hat''
        (\<lambda>_. Resolved sample_response) sample_clock sample_state) =
     [\<lparr> hid = 1000, original = ''data:image/png;base64,QUJD'',
        generated = ''data:image/png;base64,WFla'', hprompt = ''add a hat'',
        timestamp = ''10:00:00 AM'', hmodel = ''nano-banana-1'' \<rparr>]
   \<and> suffix (history sample_state) (history (app_run sample_session sample_state))
   \<and> newest_first (history (app_run sample_session initial_state))"
  using history_prepend_newest_first [of sample_state "''data:image/png;base64,QUJD''"
      sample_response "''WFla''" "\<lambda>_. Resolved sample_response" sample_clock "''Vintage''"
      "''data:image/png;base64,TUFTSw==''" "''add a hat''" sample_session 0]
  by (simp add: sample_response_data sample_state_eq initial_state_def sample_clock_def
      data_url_png_def sample_session_def trim_def is_ws_def)

subsection \<open>Images are data URLs\<close>

lemma readAsDataURL_data_url: "is_data_url (readAsDataURL f)"
  by (simp add: is_data_url_def readAsDataURL_def startsWith_def)

lemma data_url_png_data_url: "is_data_url (data_url_png b)"
  by (simp add: is_data_url_def data_url_png_def startsWith_def)

lemma catch_generation_images:
  "images_are_data_urls s \<Longrightarrow> images_are_data_urls (catch_generation msg e s)"
  by (simp add: images_are_data_urls_def catch_generation_keeps)

lemma background_complete_images:
  "images_are_data_urls s \<Longrightarrow> is_data_url img \<Longrightarrow>
   images_are_data_urls (generateNewBackground_complete out clk img c s)"
  by (simp add: generateNewBackground_complete_def catch_generation_images
      split: outcome.splits option.splits)
     (simp add: images_are_data_urls_def data_url_png_data_url)

lemma filter_complete_images:
  "images_are_data_urls s \<Longrightarrow> is_data_url img \<Longrightarrow>
   images_are_data_urls (applyFilter_complete fp out clk img c s)"
  by (simp add: applyFilter_complete_def catch_generation_images
      split: outcome.splits option.splits)
     (simp add: images_are_data_urls_def data_url_png_data_url)

lemma mask_complete_images:
  "images_are_data_urls s \<Longrightarrow> is_data_url img \<Longrightarrow>
   images_are_data_urls (generateWithMask_complete mp out clk img c s)"
  by (simp add: generateWithMask_complete_def catch_generation_images
      split: outcome.splits option.splits)
     (simp add: images_are_data_urls_def data_url_png_data_url)

lemma background_images:
  assumes "images_are_data_urls s"
  shows "images_are_data_urls (generateNewBackground call clk s)"
proof (cases "originalImage s")
  case None
  with assms show ?thesis by (simp add: generateNewBackground_unfold)
next
  case (Some img)
  with assms have "is_data_url img" by (simp add: images_are_data_urls_def)
  moreover from assms have "images_are_data_urls (generateNewBackground_begin s)"
    by (simp add: images_are_data_urls_def generateNewBackground_begin_def)
  ultimately show ?thesis
    using assms Some by (simp add: generateNewBackground_unfold background_complete_images)
qed

lemma filter_images:
  assumes "images_are_data_urls s"
  shows "images_are_data_urls (applyFilter fp call clk s)"
proof (cases "originalImage s")
  case None
  with assms show ?thesis by (simp add: applyFilter_unfold)
next
  case (Some img)
  with assms have "is_data_url img" by (simp add: images_are_data_urls_def)
  moreover from assms have "images_are_data_urls (applyFilter_begin s)"
    by (simp add: images_are_data_urls_def applyFilter_begin_def)
  ultimately show ?thesis
    using assms Some by (simp add: applyFilter_unfold filter_complete_images)
qed

lemma mask_images:
  assumes "images_are_data_urls s"
  shows "images_are_data_urls (generateWithMask mb mp call clk s)"
proof (cases "originalImage s")
  case None
  with assms show ?thesis by (simp add: generateWithMask_unfold)
next
  case (Some img)
  with assms have "is_data_url img" by (simp add: images_are_data_urls_def)
  moreover from assms have "images_are_data_urls (generateWithMask_begin s)"
    by (simp add: images_are_data_urls_def generateWithMask_begin_def)
  ultimately show ?thesis
    using assms Some by (simp add: generateWithMask_unfold mask_complete_images)
qed

lemma handleFile_images: "images_are_data_urls s \<Longrightarrow> images_are_data_urls (handleFile f s)"
  by (simp add: handleFile_def images_are_data_urls_def readAsDataURL_data_url)

lemma analyzeSceneRef_images:
  "images_are_data_urls s \<Longrightarrow> images_are_data_urls (analyzeSceneRef b call s)"
  by (simp add: analyzeSceneRef_def images_are_data_urls_def Let_def
      split: outcome.splits option.splits bool.splits)

lemma handleSceneRefUpload_images:
  assumes "images_are_data_urls s"
  shows "images_are_data_urls (handleSceneRefUpload f call s)"
proof -
  from assms have "images_are_data_urls (s\<lparr> sceneRefImage := Some (readAsDataURL f) \<rparr>)"
    by (simp add: images_are_data_urls_def readAsDataURL_data_url)
  then have "images_are_data_urls
      (analyzeSceneRef (readAsDataURL f) call (s\<lparr> sceneRefImage := Some (readAsDataURL f) \<rparr>))"
    by (rule analyzeSceneRef_images)
  with assms show ?thesis by (simp add: handleSceneRefUpload_def)
qed

lemma enhancePrompt_images:
  "images_are_data_urls s \<Longrightarrow> images_are_data_urls (enhancePrompt call s)"
  by (simp add: enhancePrompt_def images_are_data_urls_def Let_def
      split: outcome.splits option.splits bool.splits)

lemma handleDislike_images:
  "images_are_data_urls s \<Longrightarrow> images_are_data_urls (handleDislike r s)"
  by (simp add: handleDislike_def images_are_data_urls_def Let_def case_prod_beta)

lemma at_index_member: "at_index xs i = Some x \<Longrightarrow> x \<in> set xs"
  by (induction xs i rule: at_index.induct) auto

lemma loadFromHistory_images:
  "images_are_data_urls s \<Longrightarrow> at_index (history s) i = Some item \<Longrightarrow>
   images_are_data_urls (loadFromHistory item s)"
  by (auto simp: loadFromHistory_def images_are_data_urls_def list_all_iff
      dest: at_index_member)

lemma app_step_images: "images_are_data_urls s \<Longrightarrow> images_are_data_urls (app_step s e)"
proof (cases e)
  case (LoadFromHistory i)
  assume "images_are_data_urls s"
  with LoadFromHistory show ?thesis
    by (simp add: loadFromHistory_images split: option.splits)
next
  case (HandleReset)
  assume "images_are_data_urls s"
  with HandleReset show ?thesis by (simp add: handleReset_def images_are_data_urls_def)
next
  case (Navigate v)
  assume "images_are_data_urls s"
  with Navigate show ?thesis by (simp add: navigate_def images_are_data_urls_def)
next
  case (KeyChecked has)
  assume "images_are_data_urls s"
  with KeyChecked show ?thesis by (simp add: images_are_data_urls_def split: option.splits)
qed (simp_all add: handleFile_images handleSceneRefUpload_images enhancePrompt_images
    background_images filter_images mask_images handleDislike_images onAuthError_def,
    simp_all add: images_are_data_urls_def)

lemma app_run_images:
  "images_are_data_urls s \<Longrightarrow> images_are_data_urls (foldl app_step s evs)"
  by (induction evs arbitrary: s) (simp_all add: app_step_images)

text \<open>
  Claim C5, as the code has it. The application creates no object URL. Every image that
  the state holds (the current image, the generated image, the scene reference image
  and the two images of every history record) is a data URL: an upload is read with
  \<open>readAsDataURL\<close>, a generated image is the string \<open>data:image/png;base64,\<close> followed by
  the data of the response, and this holds after any series of events from the initial
  state.
\<close>

theorem images_held_are_data_urls:
  "images_are_data_urls (app_run evs initial_state)
   \<and> originalImage (handleFile \<lparr> ftype = ''image/'' @ sub, fbase64 = b64 \<rparr> s) =
       Some (''data:image/'' @ sub @ '';base64,'' @ b64)
   \<and> generated
       (hd (history (generateNewBackground_complete (Resolved (response_of_parts
          [\<lparr> ptext = None, inlineData = Some \<lparr> mimeType = m, data = Some (x # xs) \<rparr> \<rparr>]))
          clk img c s))) = ''data:image/png;base64,'' @ x # xs"
proof -
  have "images_are_data_urls initial_state"
    by (simp add: images_are_data_urls_def initial_state_def)
  then have "images_are_data_urls (app_run evs initial_state)"
    unfolding app_run_def by (rule app_run_images)
  then show ?thesis
    by (simp add: handleFile_def startsWith_def readAsDataURL_def
        generateNewBackground_complete_def generatedBase64_def response_parts_def
        response_of_parts_def data_url_png_def)
qed

text \<open>
  The claim as stated fails: after an upload and a generation the images held are data
  URLs, none of them an object URL.
\<close>

theorem object_url_counterexample:
  "originalImage sample_state = Some ''data:image/png;base64,QUJD''
   \<and> \<not> is_object_url ''data:image/png;base64,QUJD''
   \<and> generatedImage
       (generateNewBackground (\<lambda>_. Resolved sample_response) sample_clock sample_state) =
       Some ''data:image/png;base64,WFla''
   \<and> \<not> is_object_url ''data:image/png;base64,WFla''"
  by (simp add: sample_state_eq is_object_url_def startsWith_def generateNewBackground_unfold
      generateNewBackground_complete_def generateNewBackground_begin_def sample_response_data
      data_url_png_def initial_state_def trim_def is_ws_def)

subsection \<open>Upload\<close>

text \<open>
  Claim C7. For a file whose MIME type does not start with \<open>image/\<close>, \<open>handleFile\<close>
  sets the error to \<open>Unsupported file format.\<close> and changes nothing else. For a file
  whose type starts with \<open>image/\<close>, the data URL of the file becomes the current image,
  the generated image, the feedback and the feedback-options flag are cleared, the error
  is cleared and the view is the editor; nothing else changes.
\<close>

theorem handleFile_accepts_images_only:
  "(\<not> startsWith (ftype f) ''image/'' \<longrightarrow>
      handleFile f s = s\<lparr> error := ''Unsupported file format.'' \<rparr>
      \<and> originalImage (handleFile f s) = originalImage s
      \<and> generatedImage (handleFile f s) = generatedImage s)
   \<and> (startsWith (ftype f) ''image/'' \<longrightarrow>
      handleFile f s =
        s\<lparr> originalImage := Some (readAsDataURL f), generatedImage := None, feedback := None,
           showFeedbackOptions := False, error := [], activeView := Editor \<rparr>
      \<and> readAsDataURL f = ''data:'' @ ftype f @ '';base64,'' @ fbase64 f
      \<and> originalImage (handleFile f s) = Some (readAsDataURL f)
      \<and> generatedImage (handleFile f s) = None
      \<and> feedback (handleFile f s) = None
      \<and> \<not> showFeedbackOptions (handleFile f s)
      \<and> error (handleFile f s) = []
      \<and> activeView (handleFile f s) = Editor)"
  by (auto simp: handleFile_def readAsDataURL_def startsWith_def)

theorem handleFile_accepts_images_only_witness:
  "handleFile \<lparr> ftype = ''application/pdf'', fbase64 = ''JVBERg=='' \<rparr> liked_state =
     liked_state\<lparr> error := ''Unsupported file format.'' \<rparr>
   \<and> handleFile sample_file liked_state =
     liked_state\<lparr> originalImage := Some ''data:image/png;base64,QUJD'', generatedImage := None,
        feedback := None, showFeedbackOptions := False, error := [], activeView := Editor \<rparr>"
  using handleFile_accepts_images_only
      [of "\<lparr> ftype = ''application/pdf'', fbase64 = ''JVBERg=='' \<rparr>" liked_state]
    handleFile_accepts_images_only [of sample_file liked_state]
  by (simp add: startsWith_def sample_file_def readAsDataURL_def)

subsection \<open>One run of the pipeline\<close>

lemma split_js_without: "c \<notin> set xs \<Longrightarrow> split_js c xs = [xs]"
  by (induction xs) auto

lemma split_js_at_first:
  "c \<notin> set xs \<Longrightarrow> split_js c (xs @ c # ys) = xs # split_js c ys"
  by (induction xs) auto

lemma image_data_upload:
  assumes "clean_upload f" and "ftype f \<noteq> []"
  shows "image_data (readAsDataURL f) = Some (fbase64 f)"
proof -
  let ?pre = "''data:'' @ ftype f @ '';base64''"
  from assms have "CHR '','' \<notin> set ?pre" by (auto simp: clean_upload_def)
  then have "split_js CHR '','' (?pre @ CHR '','' # fbase64 f) = ?pre # split_js CHR '','' (fbase64 f)"
    by (rule split_js_at_first)
  moreover from assms have "split_js CHR '','' (fbase64 f) = [fbase64 f]"
    by (simp add: split_js_without clean_upload_def)
  moreover from assms have "readAsDataURL f = ?pre @ CHR '','' # fbase64 f"
    by (simp add: readAsDataURL_def)
  ultimately show ?thesis by (simp add: image_data_def)
qed

lemma image_mime_upload:
  assumes "clean_upload f" and "ftype f \<noteq> []"
  shows "image_mime (readAsDataURL f) = Some (ftype f)"
proof -
  let ?head = "''data:'' @ ftype f"
  from assms have "CHR '';'' \<notin> set ?head" by (auto simp: clean_upload_def)
  then have "split_js CHR '';'' (?head @ CHR '';'' # ''base64,'' @ fbase64 f) =
      ?head # split_js CHR '';'' (''base64,'' @ fbase64 f)"
    by (rule split_js_at_first)
  moreover from assms have "readAsDataURL f = ?head @ CHR '';'' # ''base64,'' @ fbase64 f"
    by (simp add: readAsDataURL_def)
  moreover have "split_js CHR '':'' (''data'' @ CHR '':'' # ftype f) =
      ''data'' # split_js CHR '':'' (ftype f)"
    by (rule split_js_at_first) simp
  moreover from assms have "split_js CHR '':'' (ftype f) = [ftype f]"
    by (simp add: split_js_without clean_upload_def)
  ultimately show ?thesis by (simp add: image_mime_def)
qed

lemma str_includes_here: "str_includes (p @ b) p"
proof (cases "p @ b")
  case Nil
  then show ?thesis by simp
next
  case (Cons x xs)
  have "startsWith (p @ b) p" by (simp add: startsWith_def)
  with Cons show ?thesis by simp
qed

lemma str_includes_inside: "str_includes (a @ p @ b) p"
  by (induction a) (simp_all add: str_includes_here)

lemma str_includes_nothing: "str_includes x []"
  by (cases x) (simp_all add: startsWith_def)

lemma str_includes_after: "str_includes x p \<Longrightarrow> str_includes (a @ x) p"
  by (induction a) simp_all

lemma startsWith_longer: "startsWith x p \<Longrightarrow> startsWith (x @ z) p"
proof -
  assume "startsWith x p"
  then have t: "take (length p) x = p" by (simp add: startsWith_def)
  have "length (take (length p) x) \<le> length x" by simp
  with t have "length p \<le> length x" by simp
  with t show ?thesis by (simp add: startsWith_def)
qed

lemma str_includes_before: "str_includes x p \<Longrightarrow> str_includes (x @ z) p"
proof (induction x)
  case Nil
  then show ?case by (simp add: str_includes_nothing)
next
  case (Cons c cs)
  then show ?case using startsWith_longer [of "c # cs" p z] by auto
qed

lemma background_fullPrompt_includes: "str_includes (background_fullPrompt s) (prompt s)"
  unfolding background_fullPrompt_def
  by (rule str_includes_here | rule str_includes_after)+

lemma first_inline_found:
  "list_all (\<lambda>q. inlineData q = None) pre \<Longrightarrow> inlineData p = Some bl \<Longrightarrow>
   first_inline (pre @ p # post) = data bl"
  by (induction pre) simp_all

lemma first_inline_absent:
  "\<not> list_ex (\<lambda>p. inlineData p \<noteq> None) ps \<Longrightarrow> first_inline ps = None"
  by (induction ps) auto

lemma no_inline_part_no_data: "has_inline_part r \<or> generatedBase64 r = None"
proof (cases "response_parts r")
  case None
  then show ?thesis by (simp add: generatedBase64_def)
next
  case (Some ps)
  show ?thesis
  proof (cases "list_ex (\<lambda>p. inlineData p \<noteq> None) ps")
    case True
    with Some show ?thesis by (simp add: has_inline_part_def)
  next
    case False
    then have "first_inline ps = None" by (rule first_inline_absent)
    with Some show ?thesis by (simp add: generatedBase64_def)
  qed
qed

lemma background_request_parts:
  assumes "clean_upload f" and "ftype f \<noteq> []"
  shows "\<exists>t rest.
      contents (background_request (readAsDataURL f) s) =
        ContentsParts
          (TextPart t # InlinePart \<lparr> mimeType = Some (ftype f), data = Some (fbase64 f) \<rparr> # rest)
      \<and> str_includes t (prompt s)"
proof -
  have a: "str_includes (background_fullPrompt s) (prompt s)"
    by (rule background_fullPrompt_includes)
  then have b: "str_includes (background_fullPrompt s @ reference_suffix) (prompt s)"
    by (rule str_includes_before)
  show ?thesis
    using assms a b
    by (auto simp: background_request_def Let_def image_data_upload image_mime_upload
        split: option.splits)
qed

text \<open>
  Claim C2, as the code has it. An uploaded image file becomes the current image as a
  base64 data URL. A run of \<open>generateNewBackground\<close> on it with a non-blank prompt
  sends a request whose first part is a text that contains the prompt and whose second
  part is the MIME type and the base64 data of the upload. When the first part of the
  response that carries \<open>inlineData\<close> has non-empty data, that data becomes the
  displayed generated image, as a PNG data URL, and one record of the result is put in
  front of the history. When the response yields no image data (it has no inline part,
  or the first inline part has no data), the generated image and the history stay as
  they were and the error message is shown.
\<close>

theorem pipeline_run:
  assumes "startsWith (ftype f) ''image/''" and "clean_upload f"
    and "originalImage s = Some (readAsDataURL f)" and "trim (prompt s) \<noteq> []"
  shows
    "originalImage (handleFile f s0) = Some (''data:'' @ ftype f @ '';base64,'' @ fbase64 f)
     \<and> (\<exists>t rest.
          contents (background_request (readAsDataURL f) s) =
            ContentsParts
              (TextPart t # InlinePart \<lparr> mimeType = Some (ftype f), data = Some (fbase64 f) \<rparr>
               # rest)
          \<and> str_includes t (prompt s))
     \<and> (call (background_request (readAsDataURL f) s) = Resolved r
        \<and> response_parts r = Some (pre @ p # post)
        \<and> list_all (\<lambda>q. inlineData q = None) pre
        \<and> inlineData p = Some bl \<and> data bl = Some b \<and> b \<noteq> [] \<longrightarrow>
          generatedImage (generateNewBackground call clk s) = Some (''data:image/png;base64,'' @ b)
          \<and> history (generateNewBackground call clk s) =
              \<lparr> hid = now clk, original = readAsDataURL f,
                generated = ''data:image/png;base64,'' @ b, hprompt = prompt s,
                timestamp = timeString clk, hmodel = selectedModel s \<rparr> # history s)
     \<and> (call (background_request (readAsDataURL f) s) = Resolved r
        \<and> falsy (generatedBase64 r) \<longrightarrow>
          generatedImage (generateNewBackground call clk s) = generatedImage s
          \<and> history (generateNewBackground call clk s) = history s
          \<and> error (generateNewBackground call clk s) = background_message)
     \<and> (has_inline_part r \<or> generatedBase64 r = None)"
proof -
  from assms(1) have ne: "ftype f \<noteq> []" by (auto simp: startsWith_def)
  then have url: "readAsDataURL f \<noteq> []" by (simp add: readAsDataURL_def)
  have up: "originalImage (handleFile f s0) =
      Some (''data:'' @ ftype f @ '';base64,'' @ fbase64 f)"
    using assms(1) ne by (simp add: handleFile_def readAsDataURL_def)
  have req: "\<exists>t rest.
      contents (background_request (readAsDataURL f) s) =
        ContentsParts
          (TextPart t # InlinePart \<lparr> mimeType = Some (ftype f), data = Some (fbase64 f) \<rparr> # rest)
      \<and> str_includes t (prompt s)"
    using assms(2) ne by (rule background_request_parts)
  have run: "generateNewBackground call clk s =
      generateNewBackground_complete (call (background_request (readAsDataURL f) s)) clk
        (readAsDataURL f) s (generateNewBackground_begin s)"
    using assms(3) url assms(4) by (rule background_run)
  have ok: "call (background_request (readAsDataURL f) s) = Resolved r
        \<and> response_parts r = Some (pre @ p # post)
        \<and> list_all (\<lambda>q. inlineData q = None) pre
        \<and> inlineData p = Some bl \<and> data bl = Some b \<and> b \<noteq> [] \<longrightarrow>
          generatedImage (generateNewBackground call clk s) = Some (''data:image/png;base64,'' @ b)
          \<and> history (generateNewBackground call clk s) =
              \<lparr> hid = now clk, original = readAsDataURL f,
                generated = ''data:image/png;base64,'' @ b, hprompt = prompt s,
                timestamp = timeString clk, hmodel = selectedModel s \<rparr> # history s"
  proof (intro impI, elim conjE)
    assume c: "call (background_request (readAsDataURL f) s) = Resolved r"
      and ps: "response_parts r = Some (pre @ p # post)"
      and pre: "list_all (\<lambda>q. inlineData q = None) pre"
      and p: "inlineData p = Some bl" and bl: "data bl = Some b" and b: "b \<noteq> []"
    from pre p have "first_inline (pre @ p # post) = data bl" by (rule first_inline_found)
    with ps bl have "generatedBase64 r = Some b" by (simp add: generatedBase64_def)
    from background_complete_success [OF this b] run c
    show "generatedImage (generateNewBackground call clk s) = Some (''data:image/png;base64,'' @ b)
          \<and> history (generateNewBackground call clk s) =
              \<lparr> hid = now clk, original = readAsDataURL f,
                generated = ''data:image/png;base64,'' @ b, hprompt = prompt s,
                timestamp = timeString clk, hmodel = selectedModel s \<rparr> # history s"
      by (simp add: generateNewBackground_begin_def data_url_png_def)
  qed
  have bad: "call (background_request (readAsDataURL f) s) = Resolved r
        \<and> falsy (generatedBase64 r) \<longrightarrow>
          generatedImage (generateNewBackground call clk s) = generatedImage s
          \<and> history (generateNewBackground call clk s) = history s
          \<and> error (generateNewBackground call clk s) = background_message"
  proof (intro impI, elim conjE)
    assume c: "call (background_request (readAsDataURL f) s) = Resolved r"
      and "falsy (generatedBase64 r)"
    then have "non_auth_failure (call (background_request (readAsDataURL f) s))" by simp
    from background_complete_failure [OF this] run
    show "generatedImage (generateNewBackground call clk s) = generatedImage s
          \<and> history (generateNewBackground call clk s) = history s
          \<and> error (generateNewBackground call clk s) = background_message"
      by (simp add: generateNewBackground_begin_def)
  qed
  from up req ok bad no_inline_part_no_data [of r] show ?thesis by (intro conjI)
qed

theorem pipeline_run_witness:
  "originalImage (handleFile sample_file initial_state) = Some ''data:image/png;base64,QUJD''
   \<and> (\<exists>t rest.
        contents (background_request ''data:image/png;base64,QUJD'' sample_state) =
          ContentsParts
            (TextPart t # InlinePart \<lparr> mimeType = Some ''image/png'', data = Some ''QUJD'' \<rparr>
             # rest)
        \<and> str_includes t ''a beach'')
   \<and> generatedImage
       (generateNewBackground (\<lambda>_. Resolved sample_response) sample_clock sample_state) =
       Some ''data:image/png;base64,WFla''
   \<and> history (generateNewBackground (\<lambda>_. Resolved sample_response) sample_clock sample_state) =
       [\<lparr> hid = 1000, original = ''data:image/png;base64,QUJD'',
          generated = ''data:image/png;base64,WFla'', hprompt = ''a beach'',
          timestamp = ''10:00:00 AM'', hmodel = ''nano-banana-1'' \<rparr>]
   \<and> generatedImage
       (generateNewBackground (\<lambda>_. Resolved text_only_response) sample_clock sample_state) = None
   \<and> history
       (generateNewBackground (\<lambda>_. Resolved text_only_response) sample_clock sample_state) = []"
proof -
  have f: "startsWith (ftype sample_file) ''image/''" "clean_upload sample_file"
    by (simp_all add: sample_file_def startsWith_def clean_upload_def)
  have ft: "ftype sample_file = ''image/png''" "fbase64 sample_file = ''QUJD''"
    by (simp_all add: sample_file_def)
  have u: "readAsDataURL sample_file = ''data:image/png;base64,QUJD''"
    by (simp add: readAsDataURL_def sample_file_def)
  have i: "originalImage sample_state = Some (readAsDataURL sample_file)"
    by (simp add: u sample_image)
  have ps: "response_parts sample_response =
      Some ([\<lparr> ptext = Some ''Here is your image.'', inlineData = None \<rparr>]
        @ \<lparr> ptext = None,
            inlineData = Some \<lparr> mimeType = Some ''image/png'', data = Some ''WFla'' \<rparr> \<rparr> # [])"
    by (simp add: response_parts_def sample_response_def response_of_parts_def)
  from pipeline_run [OF f i sample_prompt, of initial_state "\<lambda>_. Resolved sample_response"
      sample_response "[\<lparr> ptext = Some ''Here is your image.'', inlineData = None \<rparr>]"
      "\<lparr> ptext = None,
         inlineData = Some \<lparr> mimeType = Some ''image/png'', data = Some ''WFla'' \<rparr> \<rparr>" "[]"
      "\<lparr> mimeType = Some ''image/png'', data = Some ''WFla'' \<rparr>" "''WFla''" sample_clock]
    pipeline_run [OF f i sample_prompt, of initial_state "\<lambda>_. Resolved text_only_response"
      text_only_response "[]" undefined "[]" undefined "[]" sample_clock]
  show ?thesis
    by (simp add: u ps text_only_response_data ft sample_clock_def sample_state_eq
        initial_state_def)
qed

text \<open>
  The claim as stated fails on a response whose first inline part has no data: the
  response contains inline parts, the second with image data, and the run ends without
  a generated image and without a history record.
\<close>

theorem pipeline_counterexample:
  "has_inline_part dataless_response
   \<and> generatedImage
       (generateNewBackground (\<lambda>_. Resolved dataless_response) sample_clock sample_state) = None
   \<and> history
       (generateNewBackground (\<lambda>_. Resolved dataless_response) sample_clock sample_state) = []
   \<and> error
       (generateNewBackground (\<lambda>_. Resolved dataless_response) sample_clock sample_state) =
       background_message"
  by (simp add: has_inline_part_def response_parts_def dataless_response_def
      response_of_parts_def generateNewBackground_unfold sample_state_eq initial_state_def
      generateNewBackground_complete_def generatedBase64_def catch_generation_def
      no_image_not_auth generateNewBackground_begin_def trim_def is_ws_def)

subsection \<open>The API-key gate\<close>

lemma catch_generation_key:
  "isAuthError e = Some a \<Longrightarrow>
   hasApiKey (catch_generation msg e s) = (hasApiKey s \<and> \<not> a)"
  by (cases a) (simp_all add: catch_generation_def)

text \<open>
  The three generation operations, \<open>enhancePrompt\<close> and \<open>analyzeSceneRef\<close> of the
  application, \<open>analyzeImage\<close> of the prompt inspector and \<open>runGenerator\<close> of the canvas
  pass a rejected call through \<open>isAuthError\<close>: the key flag is cleared when it answers
  \<open>true\<close> and kept when it answers \<open>false\<close>.
\<close>

lemma background_key_gate:
  "originalImage s = Some img \<Longrightarrow> img \<noteq> [] \<Longrightarrow> trim (prompt s) \<noteq> [] \<Longrightarrow>
   call (background_request img s) = Rejected e \<Longrightarrow> isAuthError e = Some a \<Longrightarrow>
   hasApiKey (generateNewBackground call clk s) = (hasApiKey s \<and> \<not> a)"
  by (simp add: background_run generateNewBackground_complete_def catch_generation_key
      generateNewBackground_begin_def)

lemma filter_key_gate:
  "originalImage s = Some img \<Longrightarrow> img \<noteq> [] \<Longrightarrow>
   call (filter_request fp img s) = Rejected e \<Longrightarrow> isAuthError e = Some a \<Longrightarrow>
   hasApiKey (applyFilter fp call clk s) = (hasApiKey s \<and> \<not> a)"
  by (simp add: filter_run applyFilter_complete_def catch_generation_key applyFilter_begin_def)

lemma mask_key_gate:
  "originalImage s = Some img \<Longrightarrow> img \<noteq> [] \<Longrightarrow>
   call (mask_request mb mp img s) = Rejected e \<Longrightarrow> isAuthError e = Some a \<Longrightarrow>
   hasApiKey (generateWithMask mb mp call clk s) = (hasApiKey s \<and> \<not> a)"
  by (simp add: mask_run generateWithMask_complete_def catch_generation_key
      generateWithMask_begin_def)

lemma enhancePrompt_key_gate:
  "trim (prompt s) \<noteq> [] \<Longrightarrow> call (enhance_request (prompt s)) = Rejected e \<Longrightarrow>
   isAuthError e = Some a \<Longrightarrow>
   hasApiKey (enhancePrompt call s) = (hasApiKey s \<and> \<not> a)"
  by (cases a) (simp_all add: enhancePrompt_def Let_def)

lemma analyzeSceneRef_key_gate:
  "call (sceneRef_request b) = Rejected e \<Longrightarrow> isAuthError e = Some a \<Longrightarrow>
   hasApiKey (analyzeSceneRef b call s) = (hasApiKey s \<and> \<not> a)"
  by (cases a) (simp_all add: analyzeSceneRef_def Let_def)

lemma analyzeImage_key_gate:
  "call (inspector_request img) = Rejected e \<Longrightarrow> isAuthError e = Some a \<Longrightarrow>
   hasApiKey (fst (pi_analyzeImage img call (app, ins))) = (hasApiKey app \<and> \<not> a)"
  by (cases a) (simp_all add: pi_analyzeImage_def Let_def onAuthError_def)

lemma runGenerator_key_gate:
  "List.find (\<lambda>n. nid n = nodeId) nodes = Some node \<Longrightarrow> parentId node = Some pid \<Longrightarrow>
   pid \<noteq> [] \<Longrightarrow> List.find (\<lambda>n. nid n = pid) nodes = Some parent \<Longrightarrow>
   or_else (result (ndata parent)) (nimage (ndata parent)) = Some src \<Longrightarrow> src \<noteq> [] \<Longrightarrow>
   call (generator_request src node) = Rejected e \<Longrightarrow> isAuthError e = Some a \<Longrightarrow>
   hasApiKey (fst (runGenerator nodeId call (app, nodes))) = (hasApiKey app \<and> \<not> a)"
  by (cases a) (simp_all add: runGenerator_def onAuthError_def)

text \<open>
  The two helper calls of the filter studio do not: whatever the call does, the state of
  the application is as before.
\<close>

lemma fs_handleEnhance_app: "fst (fs_handleEnhance call (app, fs)) = app"
  by (simp add: fs_handleEnhance_def Let_def)

lemma fs_analyzeRefStyle_app: "fst (fs_analyzeRefStyle b call (app, fs)) = app"
  by (simp add: fs_analyzeRefStyle_def Let_def)

text \<open>
  Claim C4 at a failing input. With the key connected, the call of
  \<open>FilterStudio.handleEnhance\<close> and that of \<open>FilterStudio.analyzeRefStyle\<close> are
  rejected with \<open>Error: 403 Forbidden\<close>, which \<open>isAuthError\<close> answers \<open>true\<close> for; the key
  flag is still set afterwards, while \<open>enhancePrompt\<close> of the application clears it on
  the same rejection.
\<close>

theorem filter_studio_misses_key_gate:
  "isAuthError error_403 = Some True
   \<and> hasApiKey sample_state
   \<and> hasApiKey (fst (fs_handleEnhance (\<lambda>_. Rejected error_403) (sample_state, sample_studio)))
   \<and> hasApiKey (fst (fs_analyzeRefStyle ''data:image/png;base64,UkVG''
        (\<lambda>_. Rejected error_403) (sample_state, sample_studio)))
   \<and> \<not> hasApiKey (enhancePrompt (\<lambda>_. Rejected error_403) sample_state)"
  by (simp add: error_403_auth fs_handleEnhance_app fs_analyzeRefStyle_app enhancePrompt_def
      Let_def sample_state_eq initial_state_def trim_def is_ws_def)

subsection \<open>The learning profile\<close>

lemma catch_generation_profile:
  "learningProfile (catch_generation msg e s) = learningProfile s"
  by (simp add: catch_generation_def split: option.splits bool.splits)

lemma background_profile:
  "learningProfile (generateNewBackground call clk s) = learningProfile s"
  by (simp add: generateNewBackground_unfold generateNewBackground_complete_def
      generateNewBackground_begin_def catch_generation_profile
      split: option.splits outcome.splits)

lemma filter_profile: "learningProfile (applyFilter fp call clk s) = learningProfile s"
  by (simp add: applyFilter_unfold applyFilter_complete_def applyFilter_begin_def
      catch_generation_profile split: option.splits outcome.splits)

lemma mask_profile:
  "learningProfile (generateWithMask mb mp call clk s) = learningProfile s"
  by (simp add: generateWithMask_unfold generateWithMask_complete_def generateWithMask_begin_def
      catch_generation_profile split: option.splits outcome.splits)

lemma analyzeSceneRef_profile:
  "learningProfile (analyzeSceneRef b call s) = learningProfile s"
  by (simp add: analyzeSceneRef_def Let_def split: outcome.splits option.splits bool.splits)

lemma handleSceneRefUpload_profile:
  "learningProfile (handleSceneRefUpload f call s) = learningProfile s"
  by (simp add: handleSceneRefUpload_def analyzeSceneRef_profile)

lemma enhancePrompt_profile: "learningProfile (enhancePrompt call s) = learningProfile s"
  by (simp add: enhancePrompt_def Let_def split: outcome.splits option.splits bool.splits)

lemma app_step_distinct:
  "distinct (corrections (learningProfile s)) \<Longrightarrow>
   distinct (corrections (learningProfile (app_step s e)))"
  by (cases e)
     (simp_all add: handleFile_def handleSceneRefUpload_profile enhancePrompt_profile
        background_profile filter_profile mask_profile handleReset_def loadFromHistory_def
        handleDislike_distinct navigate_def onAuthError_def split: option.splits)

lemma app_run_distinct:
  "distinct (corrections (learningProfile s)) \<Longrightarrow>
   distinct (corrections (learningProfile (app_run evs s)))"
  unfolding app_run_def
  by (induction evs arbitrary: s) (simp_all add: app_step_distinct)

text \<open>
  Claim C10. Recording a dislike is idempotent on the corrections list: any number of
  further calls with the same reason leave the list as the first call left it; a call
  with \<open>lighting\<close>, \<open>cutout\<close> or \<open>fake\<close> makes its correction string a member of
  the list and adds at most one entry; after any series of events from the initial state
  the list holds no duplicate; and the counters \<open>lightingEmphasis\<close> and
  \<open>blendingStrictness\<close> grow by one on every \<open>lighting\<close>, respectively \<open>cutout\<close>,
  call.
\<close>

theorem handleDislike_corrections_once:
  "corrections (learningProfile ((handleDislike r ^^ Suc n) s)) =
     corrections (learningProfile (handleDislike r s))
   \<and> distinct (corrections (learningProfile (app_run evs initial_state)))
   \<and> length (corrections (learningProfile (handleDislike r s)))
       \<le> Suc (length (corrections (learningProfile s)))
   \<and> set (corrections (learningProfile (handleDislike ''lighting'' s))) =
       insert correction_lighting (set (corrections (learningProfile s)))
   \<and> set (corrections (learningProfile (handleDislike ''cutout'' s))) =
       insert correction_cutout (set (corrections (learningProfile s)))
   \<and> set (corrections (learningProfile (handleDislike ''fake'' s))) =
       insert correction_fake (set (corrections (learningProfile s)))
   \<and> lightingEmphasis (learningProfile ((handleDislike ''lighting'' ^^ n) s)) =
       lightingEmphasis (learningProfile s) + int n
   \<and> blendingStrictness (learningProfile ((handleDislike ''cutout'' ^^ n) s)) =
       blendingStrictness (learningProfile s) + int n"
proof -
  have d: "distinct (corrections (learningProfile (app_run evs initial_state)))"
    by (rule app_run_distinct) (simp add: initial_state_def)
  have l: "length (corrections (learningProfile (handleDislike r s)))
       \<le> Suc (length (corrections (learningProfile s)))"
    by (simp add: handleDislike_corrections_eq Let_def)
  show ?thesis
    by (intro conjI handleDislike_repeat d l added_lighting added_cutout added_fake
        lighting_counter_repeat cutout_counter_repeat)
qed

end
